theory Spec2Isabelle
  imports Main "HOL-Library.AList"
begin

section \<open>JavaScript values\<close>

text \<open>
  The values the data provider handles: the payloads of react-admin requests and of
  JSON:API documents. Numbers are modelled as integers (ids, page numbers, counts).
  An object is an association list in the order of \<open>Object.keys\<close>; a lookup reads the
  first entry of a key. \<open>Inherited n\<close> is the member \<open>n\<close> that every object inherits
  from \<open>Object.prototype\<close>: a function, or the prototype itself.
\<close>

datatype json =
    Undefined
  | Null
  | Bool bool
  | Num int
  | Str string
  | Arr "json list"
  | Obj "(string \<times> json) list"
  | Inherited string

type_synonym object = "(string \<times> json) list"

text \<open>Truthiness, as \<open>&&\<close>, \<open>||\<close> and \<open>if\<close> read a value.\<close>

fun truthy :: "json \<Rightarrow> bool" where
  "truthy Undefined = False"
| "truthy Null = False"
| "truthy (Bool b) = b"
| "truthy (Num n) = (n \<noteq> 0)"
| "truthy (Str s) = (s \<noteq> [])"
| "truthy (Arr xs) = True"
| "truthy (Obj kvs) = True"
| "truthy (Inherited n) = True"

text \<open>\<open>obj[k]\<close>, \<open>obj[k] = v\<close>, \<open>delete obj[k]\<close> and \<open>Object.keys(obj)\<close>.\<close>

definition get_prop :: "object \<Rightarrow> string \<Rightarrow> json" where
  "get_prop obj k = (case map_of obj k of None \<Rightarrow> Undefined | Some v \<Rightarrow> v)"

definition set_prop :: "string \<Rightarrow> json \<Rightarrow> object \<Rightarrow> object" where
  "set_prop k v obj = AList.update k v obj"

definition delete_prop :: "string \<Rightarrow> object \<Rightarrow> object" where
  "delete_prop k obj = filter (\<lambda>kv. fst kv \<noteq> k) obj"

definition keys :: "object \<Rightarrow> string list" where
  "keys obj = map fst obj"

text \<open>
  \<open>obj[k]\<close> for a name that need not be a key of the object, as in
  \<open>response.data.meta[settings.total]\<close>: a name that is no key of the object is looked
  up in \<open>Object.prototype\<close>, whose members are listed here as the engines define them.
\<close>

definition object_prototype_names :: "string list" where
  "object_prototype_names =
     [''constructor'', ''__defineGetter__'', ''__defineSetter__'', ''hasOwnProperty'',
      ''__lookupGetter__'', ''__lookupSetter__'', ''isPrototypeOf'', ''propertyIsEnumerable'',
      ''toString'', ''valueOf'', ''__proto__'', ''toLocaleString'']"

definition member :: "object \<Rightarrow> string \<Rightarrow> json" where
  "member obj k =
     (case map_of obj k of
        Some v \<Rightarrow> v
      | None \<Rightarrow> if k \<in> set object_prototype_names then Inherited k else Undefined)"

text \<open>\<open>s.split(c)\<close> for a one-character separator, and \<open>xs.join(sep)\<close>.\<close>

fun split_on :: "char \<Rightarrow> string \<Rightarrow> string list" where
  "split_on c [] = [[]]"
| "split_on c (x # xs) =
     (if x = c then [] # split_on c xs
      else (case split_on c xs of [] \<Rightarrow> [[x]] | w # ws \<Rightarrow> (x # w) # ws))"

fun join :: "string \<Rightarrow> string list \<Rightarrow> string" where
  "join sep [] = []"
| "join sep [x] = x"
| "join sep (x # y # ys) = x @ sep @ join sep (y # ys)"

section \<open>Requests, settings and responses\<close>

text \<open>
  Modelled from the spec: the request types of the module \<open>./actions\<close>, which is not
  among the sources. Each constant is the string of its own name, as the doc comment
  of the provider has it (\<open>Request type, e.g GET_LIST\<close>), for the nine kinds the
  specification lists.
\<close>

definition GET_LIST :: string where "GET_LIST = ''GET_LIST''"
definition GET_ONE :: string where "GET_ONE = ''GET_ONE''"
definition CREATE :: string where "CREATE = ''CREATE''"
definition UPDATE :: string where "UPDATE = ''UPDATE''"
definition UPDATE_MANY :: string where "UPDATE_MANY = ''UPDATE_MANY''"
definition DELETE :: string where "DELETE = ''DELETE''"
definition DELETE_MANY :: string where "DELETE_MANY = ''DELETE_MANY''"
definition GET_MANY :: string where "GET_MANY = ''GET_MANY''"
definition GET_MANY_REFERENCE :: string where "GET_MANY_REFERENCE = ''GET_MANY_REFERENCE''"

text \<open>
  The record data of a request (\<open>params.data\<close>) is an object the caller owns and the
  provider reaches through a reference: it lives in a store, at an address.
\<close>

type_synonym addr = nat
type_synonym heap = "addr \<Rightarrow> object"

record pagination =
  page :: json
  perPage :: json

record sort_spec =
  field :: "string option"
  order :: "string option"

text \<open>
  \<open>params\<close>. A field the caller left out is \<open>None\<close> where the provider tests for it
  (\<open>params.filter || {}\<close>, \<open>params.sort && params.sort.field\<close>, \<open>params.fields || {}\<close>,
  \<open>params.meta || {}\<close>); \<open>pagination\<close> and \<open>data\<close> are read without a test and are
  taken as given (react-admin supplies them with the request types that read them).
\<close>

record params =
  pagination :: pagination
  filter_p :: "object option"
  sort_p :: "sort_spec option"
  id_p :: json
  ids :: "json list"
  data :: addr
  target :: string
  fields_p :: "object option"
  meta_p :: "object option"

text \<open>
  The settings after \<open>merge(defaultSettings, userSettings)\<close> (\<open>deepmerge\<close> and
  \<open>./default-settings\<close> are outside the sources, so the merged settings are an input).
  \<open>total_s\<close> is \<open>settings.total\<close>, \<open>None\<close> when unset.
\<close>

record settings =
  headers :: object
  updateMethod :: string
  arrayFormat :: string
  total_s :: "string option"
  getManyKey :: string

text \<open>
  The configuration handed to axios: \<open>{ url, ...options }\<close>. \<open>method_r\<close> (\<open>options.method\<close>) is \<open>None\<close> when
  the provider sets none (axios then sends a GET); \<open>req_data\<close> is \<open>options.data\<close>.
\<close>

record request =
  url :: string
  req_headers :: object
  method_r :: "string option"
  req_data :: "string option"

text \<open>
  The JSON:API document of a response (\<open>response.data\<close>): its primary data, one
  resource object or an array of them, and its \<open>meta\<close> object when it has one.
\<close>

record resource_object =
  res_id :: json
  attributes :: object

datatype primary = One resource_object | Many "resource_object list"

record document =
  doc_data :: primary
  doc_meta :: "object option"

datatype error =
    NotImplementedError string
  | TypeError
  | TransportError string

text \<open>
  What surrounds the provider: \<open>qs.stringify\<close> (the query object and the
  \<open>arrayFormat\<close> option when one is passed), \<open>JSON.stringify\<close>, the conversion of
  a value to a string inside a template literal, the helper \<open>getValue\<close> of
  \<open>./helpers\<close> (not among the sources) and the transport \<open>axios\<close>, which answers a
  request with a document or fails.
\<close>

record env =
  stringify :: "object \<Rightarrow> string option \<Rightarrow> string"
  JSON_stringify :: "json \<Rightarrow> string"
  toString :: "json \<Rightarrow> string"
  getValue :: "object \<Rightarrow> string \<Rightarrow> json"
  axios :: "request \<Rightarrow> string + document"

section \<open>The response handler\<close>

text \<open>
  \<open>Object.assign({ id: value.id }, value.attributes)\<close>, also \<open>{ id, ...attributes }\<close>.
  The attributes are written in their own order after \<open>id\<close>; JavaScript would list
  attribute names that are array indices first, which the model does not do.
\<close>

definition assign_record :: "resource_object \<Rightarrow> json" where
  "assign_record v = Obj (fold (\<lambda>k acc. set_prop k (get_prop (attributes v) k) acc)
      (keys (attributes v)) [(''id'', res_id v)])"

text \<open>\<open>response.data.data.length\<close>: a resource object has no such property.\<close>

fun data_length :: "primary \<Rightarrow> json" where
  "data_length (Many xs) = Num (int (length xs))"
| "data_length (One v) = Undefined"

text \<open>
  The total of a collection request in \<open>src/index.js\<close>:
  \<^verbatim>\<open>if (response.data.meta && settings.total) { total = response.data.meta[settings.total]; }\<close>
  \<^verbatim>\<open>total = total || response.data.data.length;\<close>
\<close>

definition meta_total :: "settings \<Rightarrow> document \<Rightarrow> json" where
  "meta_total s doc =
     (case doc_meta doc of
        None \<Rightarrow> Undefined
      | Some m \<Rightarrow>
          (case total_s s of
             None \<Rightarrow> Undefined
           | Some k \<Rightarrow> if k = [] then Undefined else member m k))"

definition resolve_total :: "settings \<Rightarrow> document \<Rightarrow> json" where
  "resolve_total s doc =
     (let total = meta_total s doc
      in if truthy total then total else data_length (doc_data doc))"

text \<open>The same in the built file, where the helper reads the meta object.\<close>

definition meta_total_lib :: "env \<Rightarrow> settings \<Rightarrow> document \<Rightarrow> json" where
  "meta_total_lib e s doc =
     (case doc_meta doc of
        None \<Rightarrow> Undefined
      | Some m \<Rightarrow>
          (case total_s s of
             None \<Rightarrow> Undefined
           | Some k \<Rightarrow> if k = [] then Undefined else getValue e m k))"

definition resolve_total_lib :: "env \<Rightarrow> settings \<Rightarrow> document \<Rightarrow> json" where
  "resolve_total_lib e s doc =
     (let total = meta_total_lib e s doc
      in if truthy total then total else data_length (doc_data doc))"

definition unsupported :: "string \<Rightarrow> error" where
  "unsupported type = NotImplementedError (''Unsupported Data Provider request type '' @ type)"

text \<open>\<open>response.data.data.map(...)\<close>: not a function unless the data is an array.\<close>

definition map_records :: "primary \<Rightarrow> error + json" where
  "map_records d = (case d of Many xs \<Rightarrow> Inr (Arr (map assign_record xs)) | One v \<Rightarrow> Inl TypeError)"

text \<open>\<open>const { id, attributes } = response.data.data\<close> and \<open>{ id, ...attributes }\<close>.\<close>

definition single_record :: "primary \<Rightarrow> json" where
  "single_record d = (case d of One v \<Rightarrow> assign_record v | Many xs \<Rightarrow> Obj [(''id'', Undefined)])"

text \<open>
  The callback of \<open>.then\<close> in \<open>src/index.js\<close>: the total is computed for the three
  collection types only, then the switch builds the result.
\<close>

definition handleResponse :: "settings \<Rightarrow> string \<Rightarrow> document \<Rightarrow> params \<Rightarrow> error + json" where
  "handleResponse s type response p =
     (let total = (if type \<in> set [GET_LIST, GET_MANY, GET_MANY_REFERENCE]
                   then resolve_total s response else Undefined)
      in if type = GET_MANY \<or> type = GET_LIST then
           (case map_records (doc_data response) of
              Inl e \<Rightarrow> Inl e
            | Inr records \<Rightarrow> Inr (Obj [(''data'', records), (''total'', total)]))
         else if type = GET_MANY_REFERENCE then
           (case map_records (doc_data response) of
              Inl e \<Rightarrow> Inl e
            | Inr records \<Rightarrow> Inr (Obj [(''data'', records), (''total'', total)]))
         else if type = GET_ONE then Inr (Obj [(''data'', single_record (doc_data response))])
         else if type = CREATE then Inr (Obj [(''data'', single_record (doc_data response))])
         else if type = UPDATE then Inr (Obj [(''data'', single_record (doc_data response))])
         else if type = DELETE then Inr (Obj [(''data'', Obj [(''id'', id_p p)])])
         else Inl (unsupported type))"

text \<open>
  The callback in the built file: the helper resolves the total, a list result
  carries the meta object, and the two bulk types answer with the ids of the request.
\<close>

definition meta_json :: "object option \<Rightarrow> json" where
  "meta_json m = (case m of None \<Rightarrow> Undefined | Some x \<Rightarrow> Obj x)"

definition handleResponse_lib :: "env \<Rightarrow> settings \<Rightarrow> string \<Rightarrow> document \<Rightarrow> params \<Rightarrow> error + json" where
  "handleResponse_lib e s type response p =
     (let total = (if type \<in> set [GET_LIST, GET_MANY, GET_MANY_REFERENCE]
                   then resolve_total_lib e s response else Undefined)
      in if type = GET_MANY \<or> type = GET_LIST then
           (case map_records (doc_data response) of
              Inl err \<Rightarrow> Inl err
            | Inr records \<Rightarrow>
                Inr (Obj [(''data'', records), (''total'', total),
                          (''meta'', meta_json (doc_meta response))]))
         else if type = GET_MANY_REFERENCE then
           (case map_records (doc_data response) of
              Inl err \<Rightarrow> Inl err
            | Inr records \<Rightarrow> Inr (Obj [(''data'', records), (''total'', total)]))
         else if type = GET_ONE then Inr (Obj [(''data'', single_record (doc_data response))])
         else if type = CREATE then Inr (Obj [(''data'', single_record (doc_data response))])
         else if type = UPDATE then Inr (Obj [(''data'', single_record (doc_data response))])
         else if type = DELETE then Inr (Obj [(''data'', Obj [(''id'', id_p p)])])
         else if type = UPDATE_MANY \<or> type = DELETE_MANY then Inr (Obj [(''data'', Arr (ids p))])
         else Inl (unsupported type))"

section \<open>Field selection from the persisted column preferences\<close>

text \<open>
  \<open>JSON.parse(localStorage.getItem(key))\<close> for the three keys \<open>addFieldsToparams\<close>
  reads: \<open>None\<close> is \<open>null\<close> (nothing stored), else the stored list as react-admin
  writes it: the indices of the chosen columns, the sources to omit, the available
  columns. Indices and sources are strings, between which \<open>==\<close> is equality; every
  available column has both. Text that does not parse, and values of other types,
  are outside the model.
\<close>

record column =
  index :: string
  source :: string

record storage =
  getColumns :: "string \<Rightarrow> string list option"
  getOmit :: "string \<Rightarrow> string list option"
  getAvailable :: "string \<Rightarrow> column list option"

text \<open>
  \<open>omit.find((o) => a["source"] == o)\<close> as the negation \<open>!\<close> reads it: the entry
  found, which is truthy unless it is the empty string.
\<close>

definition omitted :: "string list \<Rightarrow> column \<Rightarrow> bool" where
  "omitted omit a =
     (case List.find (\<lambda>entry. source a = entry) omit of
        None \<Rightarrow> False
      | Some entry \<Rightarrow> entry \<noteq> [])"

text \<open>
  The selection: \<open>selected = available\<close>, replaced by the filtered list when an omit
  list is stored, then by the listed columns when a column list is stored. Calling
  \<open>filter\<close> or \<open>find\<close> on \<open>null\<close> throws; \<open>columns.map\<close> calls \<open>find\<close> once per
  listed column, so not at all on an empty list. \<open>find\<close> answers \<open>undefined\<close>
  (\<open>None\<close>) for a listed column that no available column has.
\<close>

definition select_columns ::
  "string list option \<Rightarrow> string list option \<Rightarrow> column list option
     \<Rightarrow> error + column option list option" where
  "select_columns columns omit available =
     (case (case omit of
              None \<Rightarrow> Inr (map_option (map Some) available)
            | Some om \<Rightarrow>
                (case available of
                   None \<Rightarrow> Inl TypeError
                 | Some av \<Rightarrow> Inr (Some (map Some (filter (\<lambda>a. \<not> omitted om a) av))))) of
        Inl e \<Rightarrow> Inl e
      | Inr selected \<Rightarrow>
          (case columns of
             None \<Rightarrow> Inr selected
           | Some cs \<Rightarrow>
               (case available of
                  None \<Rightarrow> if cs = [] then Inr (Some []) else Inl TypeError
                | Some av \<Rightarrow> Inr (Some (map (\<lambda>c. List.find (\<lambda>a. index a = c) av) cs)))))"

text \<open>\<open>selected.map((s) => s.source)\<close>: reading \<open>source\<close> of \<open>undefined\<close> throws.\<close>

fun sources :: "column option list \<Rightarrow> error + string list" where
  "sources [] = Inr []"
| "sources (None # xs) = Inl TypeError"
| "sources (Some a # xs) = (case sources xs of Inl e \<Rightarrow> Inl e | Inr ss \<Rightarrow> Inr (source a # ss))"

text \<open>
  \<open>addFieldsToparams(resource, params)\<close> writes into the object it is given and
  returns it. The result is the error thrown, if any, and the params object as the
  call leaves it: \<open>params["fields"] = {}\<close> is done before the sources are read.
\<close>

definition addFieldsToparams :: "storage \<Rightarrow> string \<Rightarrow> params \<Rightarrow> error option \<times> params" where
  "addFieldsToparams st resource p =
     (let baseKey = ''RaStore.preferences.'' @ resource @ ''.datagrid'';
          columns = getColumns st (baseKey @ ''.columns'');
          omit = getOmit st (baseKey @ ''.omit'');
          available = getAvailable st (baseKey @ ''.availableColumns'')
      in case select_columns columns omit available of
           Inl e \<Rightarrow> (Some e, p)
         | Inr None \<Rightarrow> (None, p)
         | Inr (Some selected) \<Rightarrow>
             (let resourceParts = split_on CHR ''/'' resource;
                  apiResource = last resourceParts
              in case sources selected of
                   Inl e \<Rightarrow> (Some e, p\<lparr>fields_p := Some []\<rparr>)
                 | Inr ss \<Rightarrow>
                     (None, p\<lparr>fields_p := Some [(apiResource, Str (join '','' ss))]\<rparr>)))"

section \<open>The request builder\<close>

text \<open>
  \<open>Object.keys(obj || {}).forEach((key) => { query[name + "[" + key + "]"] = obj[key] })\<close>
\<close>

definition add_entries :: "string \<Rightarrow> object option \<Rightarrow> object \<Rightarrow> object" where
  "add_entries name obj query =
     (let ob = (case obj of None \<Rightarrow> [] | Some x \<Rightarrow> x)
      in fold (\<lambda>key q. set_prop (name @ ''['' @ key @ '']'') (get_prop ob key) q) (keys ob) query)"

text \<open>
  \<^verbatim>\<open>if (params.sort && params.sort.field) {\<close>
  \<^verbatim>\<open>  const prefix = params.sort.order === "ASC" ? "" : "-";\<close>
  \<^verbatim>\<open>  query.sort = `${prefix}${params.sort.field}`; }\<close>
\<close>

definition add_sort :: "sort_spec option \<Rightarrow> object \<Rightarrow> object" where
  "add_sort srt query =
     (case srt of
        None \<Rightarrow> query
      | Some s \<Rightarrow>
          (case field s of
             None \<Rightarrow> query
           | Some f \<Rightarrow>
               if f = [] then query
               else set_prop ''sort'' (Str ((if order s = Some ''ASC'' then [] else ''-'') @ f)) query))"

definition page_query :: "params \<Rightarrow> object" where
  "page_query p = [(''page[number]'', page (pagination p)), (''page[size]'', perPage (pagination p))]"

text \<open>
  The query object of \<open>case GET_LIST\<close> in \<open>src/index.js\<close>, in the order of the source:
  pagination, filters, the fields of \<open>addFieldsToparams\<close>, the sort.
\<close>

definition getListQuery :: "storage \<Rightarrow> string \<Rightarrow> params \<Rightarrow> (error + object) \<times> params" where
  "getListQuery st resource p =
     (let query = add_entries ''filter'' (filter_p p) (page_query p)
      in case addFieldsToparams st resource p of
           (Some e, p') \<Rightarrow> (Inl e, p')
         | (None, p') \<Rightarrow>
             (Inr (add_sort (sort_p p') (add_entries ''fields'' (fields_p p') query)), p'))"

text \<open>The same in the built file, which also adds the \<open>meta\<close> parameters.\<close>

definition getListQuery_lib :: "storage \<Rightarrow> string \<Rightarrow> params \<Rightarrow> (error + object) \<times> params" where
  "getListQuery_lib st resource p =
     (let query = add_entries ''filter'' (filter_p p) (page_query p)
      in case addFieldsToparams st resource p of
           (Some e, p') \<Rightarrow> (Inl e, p')
         | (None, p') \<Rightarrow>
             (Inr (add_sort (sort_p p')
                    (add_entries ''meta'' (meta_p p')
                      (add_entries ''fields'' (fields_p p') query))), p'))"

text \<open>
  The query object of \<open>case GET_MANY_REFERENCE\<close>: in \<open>src/index.js\<close> pagination,
  filters, the reference id under the target, the sort; in the built file the same
  without the sort.
\<close>

definition getManyReferenceQuery :: "params \<Rightarrow> object" where
  "getManyReferenceQuery p =
     add_sort (sort_p p)
       (set_prop (''filter['' @ target p @ '']'') (id_p p)
         (add_entries ''filter'' (filter_p p) (page_query p)))"

definition getManyReferenceQuery_lib :: "params \<Rightarrow> object" where
  "getManyReferenceQuery_lib p =
     set_prop (''filter['' @ target p @ '']'') (id_p p)
       (add_entries ''filter'' (filter_p p) (page_query p))"

text \<open>
  The switch of \<open>src/index.js\<close> that builds the request. The result is the axios
  configuration or the error thrown, with the params object and the store of record
  data as the switch leaves them. \<open>case UPDATE\<close> deletes \<open>id\<close> from the object that
  \<open>params.data\<close> refers to and serializes that same object as the attributes.
\<close>

definition buildRequest ::
  "env \<Rightarrow> storage \<Rightarrow> string \<Rightarrow> settings \<Rightarrow> string \<Rightarrow> string \<Rightarrow> params \<Rightarrow> heap
     \<Rightarrow> (error + request) \<times> params \<times> heap" where
  "buildRequest e st apiUrl s type resource p h =
     (let options = \<lparr>url = [], req_headers = headers s, method_r = None, req_data = None\<rparr>
      in if type = GET_LIST then
           (case getListQuery st resource p of
              (Inl err, p') \<Rightarrow> (Inl err, p', h)
            | (Inr query, p') \<Rightarrow>
                (Inr (options\<lparr>url := apiUrl @ ''/'' @ resource @ ''?'' @ stringify e query None\<rparr>),
                 p', h))
         else if type = GET_ONE then
           (Inr (options\<lparr>url := apiUrl @ ''/'' @ resource @ ''/'' @ toString e (id_p p)\<rparr>), p, h)
         else if type = CREATE then
           (Inr (options\<lparr>url := apiUrl @ ''/'' @ resource,
                         method_r := Some ''POST'',
                         req_data := Some (JSON_stringify e
                           (Obj [(''data'', Obj [(''type'', Str resource),
                                                 (''attributes'', Obj (h (data p)))])]))\<rparr>),
            p, h)
         else if type = UPDATE then
           (let attributes = data p;
                h' = h(attributes := delete_prop ''id'' (h attributes))
            in (Inr (options\<lparr>url := apiUrl @ ''/'' @ resource @ ''/'' @ toString e (id_p p),
                             method_r := Some (updateMethod s),
                             req_data := Some (JSON_stringify e
                               (Obj [(''data'', Obj [(''id'', id_p p),
                                                     (''type'', Str resource),
                                                     (''attributes'', Obj (h' attributes))])]))\<rparr>),
                p, h'))
         else if type = DELETE then
           (Inr (options\<lparr>url := apiUrl @ ''/'' @ resource @ ''/'' @ toString e (id_p p),
                         method_r := Some ''DELETE''\<rparr>), p, h)
         else if type = GET_MANY then
           (Inr (options\<lparr>url := apiUrl @ ''/'' @ resource @ ''?'' @
                   stringify e [(''filter['' @ getManyKey s @ '']'', Arr (ids p))]
                     (Some (arrayFormat s))\<rparr>), p, h)
         else if type = GET_MANY_REFERENCE then
           (Inr (options\<lparr>url := apiUrl @ ''/'' @ resource @ ''?'' @
                   stringify e (getManyReferenceQuery p) None\<rparr>), p, h)
         else (Inl (unsupported type), p, h))"

text \<open>
  The switch of the built file: the two bulk types are added, \<open>case GET_MANY\<close> writes
  the key \<open>filter[id]\<close> itself, and \<open>case GET_MANY_REFERENCE\<close> adds no sort.
\<close>

definition buildRequest_lib ::
  "env \<Rightarrow> storage \<Rightarrow> string \<Rightarrow> settings \<Rightarrow> string \<Rightarrow> string \<Rightarrow> params \<Rightarrow> heap
     \<Rightarrow> (error + request) \<times> params \<times> heap" where
  "buildRequest_lib e st apiUrl s type resource p h =
     (let options = \<lparr>url = [], req_headers = headers s, method_r = None, req_data = None\<rparr>
      in if type = GET_LIST then
           (case getListQuery_lib st resource p of
              (Inl err, p') \<Rightarrow> (Inl err, p', h)
            | (Inr query, p') \<Rightarrow>
                (Inr (options\<lparr>url := apiUrl @ ''/'' @ resource @ ''?'' @ stringify e query None\<rparr>),
                 p', h))
         else if type = GET_ONE then
           (Inr (options\<lparr>url := apiUrl @ ''/'' @ resource @ ''/'' @ toString e (id_p p)\<rparr>), p, h)
         else if type = CREATE then
           (Inr (options\<lparr>url := apiUrl @ ''/'' @ resource,
                         method_r := Some ''POST'',
                         req_data := Some (JSON_stringify e
                           (Obj [(''data'', Obj [(''type'', Str resource),
                                                 (''attributes'', Obj (h (data p)))])]))\<rparr>),
            p, h)
         else if type = UPDATE then
           (let attributes = data p;
                h' = h(attributes := delete_prop ''id'' (h attributes))
            in (Inr (options\<lparr>url := apiUrl @ ''/'' @ resource @ ''/'' @ toString e (id_p p),
                             method_r := Some (updateMethod s),
                             req_data := Some (JSON_stringify e
                               (Obj [(''data'', Obj [(''id'', id_p p),
                                                     (''type'', Str resource),
                                                     (''attributes'', Obj (h' attributes))])]))\<rparr>),
                p, h'))
         else if type = UPDATE_MANY then
           (Inr (options\<lparr>url := apiUrl @ ''/'' @ resource,
                         method_r := Some (updateMethod s),
                         req_data := Some (JSON_stringify e
                           (Obj [(''ids'', Arr (ids p)), (''data'', Obj (h (data p)))]))\<rparr>),
            p, h)
         else if type = DELETE then
           (Inr (options\<lparr>url := apiUrl @ ''/'' @ resource @ ''/'' @ toString e (id_p p),
                         method_r := Some ''DELETE''\<rparr>), p, h)
         else if type = DELETE_MANY then
           (Inr (options\<lparr>url := apiUrl @ ''/'' @ resource,
                         method_r := Some ''DELETE'',
                         req_data := Some (JSON_stringify e (Obj [(''ids'', Arr (ids p))]))\<rparr>),
            p, h)
         else if type = GET_MANY then
           (Inr (options\<lparr>url := apiUrl @ ''/'' @ resource @ ''?'' @
                   stringify e [(''filter[id]'', Arr (ids p))] (Some (arrayFormat s))\<rparr>), p, h)
         else if type = GET_MANY_REFERENCE then
           (Inr (options\<lparr>url := apiUrl @ ''/'' @ resource @ ''?'' @
                   stringify e (getManyReferenceQuery_lib p) None\<rparr>), p, h)
         else (Inl (unsupported type), p, h))"

section \<open>The data provider\<close>

text \<open>
  A call ends in one of three ways: it throws before it returns a promise, or the
  promise it returned is rejected, or resolved with the normalized result.
\<close>

datatype outcome = Thrown error | Rejected error | Resolved json

text \<open>
  The provider: the switch, then \<open>axios({ url, ...options }).then(...)\<close>. The result
  is the outcome, the params object and the store as the call leaves them, and the
  requests handed to the transport. An error of the switch is thrown before axios is
  called; an error of the callback rejects the promise.
\<close>

definition dataProvider ::
  "env \<Rightarrow> storage \<Rightarrow> string \<Rightarrow> settings \<Rightarrow> string \<Rightarrow> string \<Rightarrow> params \<Rightarrow> heap
     \<Rightarrow> outcome \<times> params \<times> heap \<times> request list" where
  "dataProvider e st apiUrl s type resource p h =
     (case buildRequest e st apiUrl s type resource p h of
        (Inl err, p', h') \<Rightarrow> (Thrown err, p', h', [])
      | (Inr req, p', h') \<Rightarrow>
          (case axios e req of
             Inl failure \<Rightarrow> (Rejected (TransportError failure), p', h', [req])
           | Inr response \<Rightarrow>
               (case handleResponse s type response p' of
                  Inl err \<Rightarrow> (Rejected err, p', h', [req])
                | Inr result \<Rightarrow> (Resolved result, p', h', [req]))))"

definition dataProvider_lib ::
  "env \<Rightarrow> storage \<Rightarrow> string \<Rightarrow> settings \<Rightarrow> string \<Rightarrow> string \<Rightarrow> params \<Rightarrow> heap
     \<Rightarrow> outcome \<times> params \<times> heap \<times> request list" where
  "dataProvider_lib e st apiUrl s type resource p h =
     (case buildRequest_lib e st apiUrl s type resource p h of
        (Inl err, p', h') \<Rightarrow> (Thrown err, p', h', [])
      | (Inr req, p', h') \<Rightarrow>
          (case axios e req of
             Inl failure \<Rightarrow> (Rejected (TransportError failure), p', h', [req])
           | Inr response \<Rightarrow>
               (case handleResponse_lib e s type response p' of
                  Inl err \<Rightarrow> (Rejected err, p', h', [req])
                | Inr result \<Rightarrow> (Resolved result, p', h', [req]))))"

section \<open>Sample surroundings and inputs\<close>

text \<open>
  Modelled from the spec: the helper \<open>getValue\<close> of \<open>./helpers\<close> is not among the
  sources; the specification says that the total is read from the meta object with
  nested (dotted) lookup. A path is split at its dots and followed from the meta
  object, each step reading a member as \<open>src/index.js\<close> reads the whole name; a step
  from a value that is no object gives \<open>undefined\<close>.
\<close>

fun get_path :: "json \<Rightarrow> string list \<Rightarrow> json" where
  "get_path v [] = v"
| "get_path (Obj kvs) (k # ks) = get_path (member kvs k) ks"
| "get_path v (k # ks) = Undefined"

definition helpers_getValue :: "object \<Rightarrow> string \<Rightarrow> json" where
  "helpers_getValue m path = get_path (Obj m) (split_on CHR ''.'' path)"

text \<open>
  Stand-ins for the surroundings, to run the provider on concrete inputs: the
  serializers only list the names they are given, and the transport answers every
  request with an empty collection. The theorems below hold for every environment.
\<close>

definition sample_env :: env where
  "sample_env =
     \<lparr>stringify = (\<lambda>query format. join ''&'' (keys query)),
      JSON_stringify = (\<lambda>v. case v of Obj kvs \<Rightarrow> join '','' (keys kvs) | _ \<Rightarrow> []),
      toString = (\<lambda>v. case v of Str x \<Rightarrow> x | _ \<Rightarrow> ''7''),
      getValue = helpers_getValue,
      axios = (\<lambda>req. Inr \<lparr>doc_data = Many [], doc_meta = None\<rparr>)\<rparr>"

definition sample_settings :: settings where
  "sample_settings =
     \<lparr>headers = [], updateMethod = ''PATCH'', arrayFormat = ''brackets'',
      total_s = Some ''count'', getManyKey = ''id''\<rparr>"

definition sample_params :: params where
  "sample_params =
     \<lparr>pagination = \<lparr>page = Num 1, perPage = Num 10\<rparr>,
      filter_p = Some [(''author'', Str ''ann'')],
      sort_p = Some \<lparr>field = Some ''name'', order = Some ''DESC''\<rparr>,
      id_p = Num 7,
      ids = [Num 1, Num 2, Num 3],
      data = 0,
      target = ''post_id'',
      fields_p = None,
      meta_p = None\<rparr>"

text \<open>The store: the record data of the sample request, \<open>{ id: 7, title: "t" }\<close>.\<close>

definition sample_heap :: heap where
  "sample_heap = (\<lambda>a. [])(0 := [(''id'', Num 7), (''title'', Str ''t'')])"

text \<open>Nothing persisted, and the preferences of the example of the specification.\<close>

definition no_prefs :: storage where
  "no_prefs = \<lparr>getColumns = (\<lambda>k. None), getOmit = (\<lambda>k. None), getAvailable = (\<lambda>k. None)\<rparr>"

definition posts_columns :: "column list" where
  "posts_columns = [\<lparr>index = ''1'', source = ''title''\<rparr>, \<lparr>index = ''2'', source = ''body''\<rparr>]"

definition at_key :: "string \<Rightarrow> 'a \<Rightarrow> string \<Rightarrow> 'a option" where
  "at_key key v = (\<lambda>k. if k = key then Some v else None)"

definition omit_prefs :: storage where
  "omit_prefs =
     \<lparr>getColumns = (\<lambda>k. None),
      getOmit = at_key ''RaStore.preferences.posts.datagrid.omit'' [''body''],
      getAvailable = at_key ''RaStore.preferences.posts.datagrid.availableColumns'' posts_columns\<rparr>"

definition three_records :: document where
  "three_records =
     \<lparr>doc_data = Many [\<lparr>res_id = Num 1, attributes = []\<rparr>, \<lparr>res_id = Num 2, attributes = []\<rparr>,
                       \<lparr>res_id = Num 3, attributes = []\<rparr>],
      doc_meta = Some [(''count'', Num 0)]\<rparr>"

text \<open>
  More stored preferences: a column list over the columns of the example, an omit list
  that holds the empty string beside a column whose source is empty, an empty column
  list with nothing else stored, and the columns of a resource under a path.
\<close>

definition listed_prefs :: "string list \<Rightarrow> storage" where
  "listed_prefs cs =
     \<lparr>getColumns = at_key ''RaStore.preferences.posts.datagrid.columns'' cs,
      getOmit = (\<lambda>k. None),
      getAvailable = at_key ''RaStore.preferences.posts.datagrid.availableColumns'' posts_columns\<rparr>"

definition empty_omit_prefs :: storage where
  "empty_omit_prefs =
     \<lparr>getColumns = (\<lambda>k. None),
      getOmit = at_key ''RaStore.preferences.posts.datagrid.omit'' [[]],
      getAvailable = at_key ''RaStore.preferences.posts.datagrid.availableColumns''
        [\<lparr>index = ''1'', source = []\<rparr>, \<lparr>index = ''2'', source = ''body''\<rparr>]\<rparr>"

definition empty_columns_prefs :: storage where
  "empty_columns_prefs =
     \<lparr>getColumns = at_key ''RaStore.preferences.posts.datagrid.columns'' [],
      getOmit = (\<lambda>k. None),
      getAvailable = (\<lambda>k. None)\<rparr>"

definition nested_prefs :: storage where
  "nested_prefs =
     \<lparr>getColumns = (\<lambda>k. None),
      getOmit = (\<lambda>k. None),
      getAvailable = at_key ''RaStore.preferences.blog/posts.datagrid.availableColumns'' posts_columns\<rparr>"

section \<open>Notions used to state the properties\<close>

text \<open>
  The case labels of the two switches that build the request.
\<close>

definition supported_types :: "string list" where
  "supported_types = [GET_LIST, GET_ONE, CREATE, UPDATE, DELETE, GET_MANY, GET_MANY_REFERENCE]"

definition supported_types_lib :: "string list" where
  "supported_types_lib =
     [GET_LIST, GET_ONE, CREATE, UPDATE, UPDATE_MANY, DELETE, DELETE_MANY, GET_MANY,
      GET_MANY_REFERENCE]"

text \<open>
  The \<open>total\<close> of a normalized result.
\<close>

definition result_total :: "error + json \<Rightarrow> json option" where
  "result_total r = (case r of Inr (Obj kvs) \<Rightarrow> map_of kvs ''total'' | _ \<Rightarrow> None)"

text \<open>
  The parameters of a query whose name starts with \<open>fields[\<close>, and those of the
  query of a list request that was built.
\<close>

definition fields_entries :: "object \<Rightarrow> object" where
  "fields_entries query = filter (\<lambda>kv. take 7 (fst kv) = ''fields['') query"

definition emitted_fields :: "(error + object) \<times> params \<Rightarrow> object option" where
  "emitted_fields r = (case fst r of Inl err \<Rightarrow> None | Inr query \<Rightarrow> Some (fields_entries query))"

section \<open>Auxiliary facts\<close>

lemmas actions_defs =
  GET_LIST_def GET_ONE_def CREATE_def UPDATE_def UPDATE_MANY_def DELETE_def
  DELETE_MANY_def GET_MANY_def GET_MANY_REFERENCE_def

lemmas sample_defs =
  sample_env_def sample_settings_def sample_params_def sample_heap_def three_records_def

lemmas query_defs =
  getListQuery_def getListQuery_lib_def addFieldsToparams_def select_columns_def omitted_def
  add_entries_def add_sort_def page_query_def set_prop_def get_prop_def keys_def
  getManyReferenceQuery_def getManyReferenceQuery_lib_def

lemmas prefs_defs =
  listed_prefs_def empty_omit_prefs_def empty_columns_prefs_def nested_prefs_def omit_prefs_def
  no_prefs_def posts_columns_def at_key_def

subsection \<open>Objects written key by key\<close>

lemma map_of_fold_update_miss:
  "x \<notin> f ` set ks \<Longrightarrow>
     map_of (fold (\<lambda>key q. AList.update (f key) (g key) q) ks q) x = map_of q x"
  by (induction ks arbitrary: q) (auto simp: AList.update_conv')

lemma map_of_fold_update_hit:
  "inj f \<Longrightarrow> k \<in> set ks \<Longrightarrow>
     map_of (fold (\<lambda>key q. AList.update (f key) (g key) q) ks q) (f k) = Some (g k)"
proof (induction ks arbitrary: q)
  case Nil
  then show ?case by simp
next
  case (Cons a ks)
  show ?case
  proof (cases "k \<in> set ks")
    case True
    with Cons show ?thesis by simp
  next
    case False
    with Cons.prems have ka: "k = a" by simp
    from False Cons.prems(1) have "f k \<notin> f ` set ks" by (auto dest: injD)
    then show ?thesis
      using ka by (simp add: map_of_fold_update_miss AList.update_conv')
  qed
qed

lemma keys_fold_update:
  "fst ` set (fold (\<lambda>key q. AList.update (f key) (g key) q) ks q) = fst ` set q \<union> f ` set ks"
  by (induction ks arbitrary: q) (auto simp: AList.dom_update)

lemma inj_entry_key: "inj (\<lambda>key. name @ ''['' @ key @ '']'')"
  by (rule injI) simp

lemma map_of_add_entries_miss:
  "(\<And>k. x \<noteq> name @ ''['' @ k @ '']'') \<Longrightarrow> map_of (add_entries name obj q) x = map_of q x"
  unfolding add_entries_def Let_def set_prop_def
  by (rule map_of_fold_update_miss) auto

lemma map_of_add_entries_other:
  "k \<notin> set (keys (case obj of None \<Rightarrow> [] | Some x \<Rightarrow> x)) \<Longrightarrow>
     map_of (add_entries name obj q) (name @ ''['' @ k @ '']'') = map_of q (name @ ''['' @ k @ '']'')"
  unfolding add_entries_def Let_def set_prop_def
  by (rule map_of_fold_update_miss) auto

lemma map_of_add_entries_hit:
  "map_of ob k = Some v \<Longrightarrow>
     map_of (add_entries name (Some ob) q) (name @ ''['' @ k @ '']'') = Some v"
proof -
  assume a: "map_of ob k = Some v"
  then have "k \<in> set (keys ob)"
    unfolding keys_def by (metis map_of_eq_None_iff option.distinct(1) set_map)
  then have "map_of (fold (\<lambda>key q. AList.update (name @ ''['' @ key @ '']'') (get_prop ob key) q) (keys ob) q)
      (name @ ''['' @ k @ '']'') = Some (get_prop ob k)"
    using map_of_fold_update_hit [OF inj_entry_key, of k "keys ob" name "get_prop ob" q] by simp
  with a show ?thesis
    by (simp add: add_entries_def set_prop_def get_prop_def)
qed

lemma keys_add_entries:
  "fst ` set (add_entries name obj q) =
     fst ` set q \<union> (\<lambda>key. name @ ''['' @ key @ '']'') ` set (keys (case obj of None \<Rightarrow> [] | Some x \<Rightarrow> x))"
  unfolding add_entries_def Let_def set_prop_def by (rule keys_fold_update)

lemma map_of_add_sort_other:
  "x \<noteq> ''sort'' \<Longrightarrow> map_of (add_sort srt q) x = map_of q x"
  by (auto simp: add_sort_def set_prop_def AList.update_conv' split: option.splits)

lemma map_of_delete_prop:
  "map_of (delete_prop k obj) x = (if x = k then None else map_of obj x)"
  by (induction obj) (auto simp: delete_prop_def)

lemma delete_prop_keys: "k \<notin> set (keys (delete_prop k obj))"
  by (auto simp: delete_prop_def keys_def)

lemma sort_not_entry: "map_of (page_query p) ''sort'' = None"
  by (simp add: page_query_def)

lemma map_of_page_query:
  "map_of (page_query p) ''page[number]'' = Some (page (pagination p))"
  "map_of (page_query p) ''page[size]'' = Some (perPage (pagination p))"
  by (simp_all add: page_query_def)

lemma add_sort_cases:
  assumes "map_of q0 ''sort'' = None"
  shows "(f \<noteq> [] \<and> srt = Some \<lparr>field = Some f, order = Some ''DESC''\<rparr> \<longrightarrow>
            map_of (add_sort srt q0) ''sort'' = Some (Str (''-'' @ f))) \<and>
         (f \<noteq> [] \<and> srt = Some \<lparr>field = Some f, order = Some ''ASC''\<rparr> \<longrightarrow>
            map_of (add_sort srt q0) ''sort'' = Some (Str f)) \<and>
         ((\<forall>x. srt = Some x \<longrightarrow> field x = None \<or> field x = Some []) \<longrightarrow>
            map_of (add_sort srt q0) ''sort'' = None)"
  using assms
  by (auto simp: add_sort_def set_prop_def AList.update_conv' split: option.splits)

lemma filter_update_other:
  "\<not> P k \<Longrightarrow> filter (\<lambda>kv. P (fst kv)) (AList.update k v q) = filter (\<lambda>kv. P (fst kv)) q"
  by (induction q) auto

lemma filter_update_new:
  "P k \<Longrightarrow> filter (\<lambda>kv. P (fst kv)) q = [] \<Longrightarrow>
     filter (\<lambda>kv. P (fst kv)) (AList.update k v q) = [(k, v)]"
  by (induction q) (auto split: if_splits)

lemma filter_fold_update_other:
  "(\<And>key. \<not> P (f key)) \<Longrightarrow>
     filter (\<lambda>kv. P (fst kv)) (fold (\<lambda>key q. AList.update (f key) (g key) q) ks q) =
     filter (\<lambda>kv. P (fst kv)) q"
  by (induction ks arbitrary: q) (simp_all add: filter_update_other)

lemma fields_entries_page [simp]: "fields_entries (page_query p) = []"
  by (simp add: fields_entries_def page_query_def)

lemma fields_entries_filter [simp]:
  "fields_entries (add_entries ''filter'' f q) = fields_entries q"
  unfolding fields_entries_def add_entries_def Let_def set_prop_def
  by (rule filter_fold_update_other) simp

lemma fields_entries_meta [simp]:
  "fields_entries (add_entries ''meta'' f q) = fields_entries q"
  unfolding fields_entries_def add_entries_def Let_def set_prop_def
  by (rule filter_fold_update_other) simp

lemma fields_entries_update_other:
  "take 7 k \<noteq> ''fields['' \<Longrightarrow> fields_entries (AList.update k v q) = fields_entries q"
  unfolding fields_entries_def
  using filter_update_other [of "\<lambda>k. take 7 k = ''fields[''" k v q] by simp

lemma fields_entries_sort [simp]: "fields_entries (add_sort srt q) = fields_entries q"
  by (auto simp: add_sort_def set_prop_def fields_entries_update_other split: option.splits)

lemma fields_entries_single:
  "fields_entries q = [] \<Longrightarrow>
     fields_entries (add_entries ''fields'' (Some [(T, v)]) q) = [(''fields['' @ T @ '']'', v)]"
  unfolding fields_entries_def add_entries_def Let_def set_prop_def keys_def get_prop_def
  using filter_update_new [of "\<lambda>k. take 7 k = ''fields[''" "''fields['' @ T @ '']''" q v]
  by simp

lemma fields_entries_keys:
  "fields_entries q = [] \<Longrightarrow>
     fst ` set (fields_entries (add_entries ''fields'' f q)) =
       (\<lambda>k. ''fields['' @ k @ '']'') ` set (keys (case f of None \<Rightarrow> [] | Some x \<Rightarrow> x))"
proof -
  assume a: "fields_entries q = []"
  have "fst ` set (fields_entries (add_entries ''fields'' f q)) =
      {k \<in> fst ` set (add_entries ''fields'' f q). take 7 k = ''fields[''}"
    by (auto simp: fields_entries_def image_iff)
  also have "\<dots> = {k \<in> fst ` set q \<union> (\<lambda>k. ''fields'' @ ''['' @ k @ '']'') `
      set (keys (case f of None \<Rightarrow> [] | Some x \<Rightarrow> x)). take 7 k = ''fields[''}"
    by (simp only: keys_add_entries)
  also have "\<dots> = (\<lambda>k. ''fields['' @ k @ '']'') ` set (keys (case f of None \<Rightarrow> [] | Some x \<Rightarrow> x))"
    using a by (auto simp: fields_entries_def filter_empty_conv)
  finally show ?thesis .
qed

subsection \<open>The selection of columns\<close>

lemma sources_found: "sources (map Some xs) = Inr (map source xs)"
  by (induction xs) simp_all

lemma omitted_iff: "[] \<notin> set om \<Longrightarrow> omitted om a = (source a \<in> set om)"
  by (auto simp: omitted_def find_None_iff find_Some_iff split: option.splits)

lemma select_listed:
  "select_columns (Some cs) om (Some av) =
     Inr (Some (map (\<lambda>c. List.find (\<lambda>a. index a = c) av) cs))"
  by (simp add: select_columns_def split: option.splits)

lemma select_omit:
  "select_columns None (Some om) (Some av) =
     Inr (Some (map Some (filter (\<lambda>a. \<not> omitted om a) av)))"
  by (simp add: select_columns_def)

lemma select_all: "select_columns None None av = Inr (map_option (map Some) av)"
  by (simp add: select_columns_def)

lemma select_null:
  "om \<noteq> None \<or> (\<exists>c cs. columns = Some (c # cs)) \<Longrightarrow> select_columns columns om None = Inl TypeError"
  by (auto simp: select_columns_def split: option.splits)

lemma addFieldsToparams_frame:
  "addFieldsToparams st resource p = (r, p') \<Longrightarrow>
     sort_p p' = sort_p p \<and> filter_p p' = filter_p p \<and> meta_p p' = meta_p p \<and>
     pagination p' = pagination p \<and> id_p p' = id_p p"
  by (auto simp: addFieldsToparams_def Let_def split: sum.splits option.splits)

lemma sources_unmatched: "None \<in> set xs \<Longrightarrow> sources xs = Inl TypeError"
  by (induction xs rule: sources.induct) (auto split: sum.splits)

subsection \<open>Reading the total from the meta object\<close>

lemma split_on_plain: "c \<notin> set xs \<Longrightarrow> split_on c xs = [xs]"
  by (induction xs) auto

lemma split_on_first: "c \<notin> set xs \<Longrightarrow> split_on c (xs @ c # ys) = xs # split_on c ys"
  by (induction xs) auto

lemma helpers_getValue_plain: "CHR ''.'' \<notin> set k \<Longrightarrow> helpers_getValue m k = member m k"
  by (simp add: helpers_getValue_def split_on_plain)

lemma helpers_getValue_nested:
  "CHR ''.'' \<notin> set a \<Longrightarrow> member m a = Obj inner \<Longrightarrow>
     helpers_getValue m (a @ CHR ''.'' # b) = helpers_getValue inner b"
  by (simp add: helpers_getValue_def split_on_first)

lemma collection_total_src:
  "type \<in> set [GET_LIST, GET_MANY, GET_MANY_REFERENCE] \<Longrightarrow> doc_data response = Many xs \<Longrightarrow>
     result_total (handleResponse s type response p) =
       Some (case (doc_meta response, total_s s) of
               (Some m, Some k) \<Rightarrow>
                 if k \<noteq> [] \<and> truthy (member m k) then member m k else Num (int (length xs))
             | _ \<Rightarrow> Num (int (length xs)))"
  by (auto simp: result_total_def handleResponse_def resolve_total_def meta_total_def
      map_records_def Let_def actions_defs split: option.splits)

lemma collection_total_lib:
  "type \<in> set [GET_LIST, GET_MANY, GET_MANY_REFERENCE] \<Longrightarrow> doc_data response = Many xs \<Longrightarrow>
     result_total (handleResponse_lib e s type response p) =
       Some (case (doc_meta response, total_s s) of
               (Some m, Some k) \<Rightarrow>
                 if k \<noteq> [] \<and> truthy (getValue e m k) then getValue e m k
                 else Num (int (length xs))
             | _ \<Rightarrow> Num (int (length xs)))"
  by (auto simp: result_total_def handleResponse_lib_def resolve_total_lib_def meta_total_lib_def
      map_records_def Let_def actions_defs split: option.splits)

text \<open>
  A name that is no key of the meta object but a member of every object is read as that
  member, which is truthy and so becomes the total.
\<close>

lemma inherited_member_total:
  "result_total (handleResponse (sample_settings\<lparr>total_s := Some ''constructor''\<rparr>) GET_LIST
      three_records sample_params) = Some (Inherited ''constructor'')"
  by (simp add: result_total_def handleResponse_def resolve_total_def meta_total_def
      map_records_def member_def object_prototype_names_def actions_defs sample_defs)

subsection \<open>The queries of the list and reference requests\<close>

lemma getListQuery_shape:
  "getListQuery st resource p = (Inr q, p') \<Longrightarrow>
     \<exists>q0. q = add_sort (sort_p p) q0 \<and> map_of q0 ''sort'' = None"
proof -
  assume a: "getListQuery st resource p = (Inr q, p')"
  then obtain r where r: "addFieldsToparams st resource p = (r, p')"
    by (auto simp: getListQuery_def Let_def split: prod.splits option.splits)
  from addFieldsToparams_frame [OF r] have s: "sort_p p' = sort_p p" by simp
  let ?q0 = "add_entries ''fields'' (fields_p p') (add_entries ''filter'' (filter_p p) (page_query p))"
  from a r s have "q = add_sort (sort_p p) ?q0"
    by (auto simp: getListQuery_def Let_def split: prod.splits option.splits)
  moreover have "map_of ?q0 ''sort'' = None"
    by (simp add: map_of_add_entries_miss sort_not_entry)
  ultimately show ?thesis by blast
qed

lemma getListQuery_lib_shape:
  "getListQuery_lib st resource p = (Inr q, p') \<Longrightarrow>
     \<exists>q0. q = add_sort (sort_p p) q0 \<and> map_of q0 ''sort'' = None"
proof -
  assume a: "getListQuery_lib st resource p = (Inr q, p')"
  then obtain r where r: "addFieldsToparams st resource p = (r, p')"
    by (auto simp: getListQuery_lib_def Let_def split: prod.splits option.splits)
  from addFieldsToparams_frame [OF r] have s: "sort_p p' = sort_p p" by simp
  let ?q0 = "add_entries ''meta'' (meta_p p') (add_entries ''fields'' (fields_p p')
     (add_entries ''filter'' (filter_p p) (page_query p)))"
  from a r s have "q = add_sort (sort_p p) ?q0"
    by (auto simp: getListQuery_lib_def Let_def split: prod.splits option.splits)
  moreover have "map_of ?q0 ''sort'' = None"
    by (simp add: map_of_add_entries_miss sort_not_entry)
  ultimately show ?thesis by blast
qed

lemma buildRequest_list:
  "buildRequest e st apiUrl s GET_LIST resource p h = (Inr req, p', h') \<Longrightarrow>
     \<exists>q. getListQuery st resource p = (Inr q, p') \<and> h' = h \<and>
       req = \<lparr>url = apiUrl @ ''/'' @ resource @ ''?'' @ stringify e q None,
              req_headers = headers s, method_r = None, req_data = None\<rparr>"
  by (auto simp: buildRequest_def Let_def split: prod.splits sum.splits)

lemma buildRequest_lib_list:
  "buildRequest_lib e st apiUrl s GET_LIST resource p h = (Inr req, p', h') \<Longrightarrow>
     \<exists>q. getListQuery_lib st resource p = (Inr q, p') \<and> h' = h \<and>
       req = \<lparr>url = apiUrl @ ''/'' @ resource @ ''?'' @ stringify e q None,
              req_headers = headers s, method_r = None, req_data = None\<rparr>"
  by (auto simp: buildRequest_lib_def Let_def split: prod.splits sum.splits)

text \<open>
  What a selection leaves in the query, for both list queries.
\<close>

lemma list_query_selected:
  assumes "listQuery = getListQuery \<or> listQuery = getListQuery_lib"
    and "select_columns
           (getColumns st (''RaStore.preferences.'' @ resource @ ''.datagrid.columns''))
           (getOmit st (''RaStore.preferences.'' @ resource @ ''.datagrid.omit''))
           (getAvailable st (''RaStore.preferences.'' @ resource @ ''.datagrid.availableColumns''))
         = Inr (Some (map Some sel))"
  shows "\<exists>q. listQuery st resource p =
       (Inr q, p\<lparr>fields_p := Some [(last (split_on CHR ''/'' resource),
                                      Str (join '','' (map source sel)))]\<rparr>) \<and>
     fields_entries q = [(''fields['' @ last (split_on CHR ''/'' resource) @ '']'',
                          Str (join '','' (map source sel)))]"
  using assms
  by (auto simp: getListQuery_def getListQuery_lib_def addFieldsToparams_def Let_def
      sources_found fields_entries_single)

lemma list_query_unselected:
  assumes "listQuery = getListQuery \<or> listQuery = getListQuery_lib"
    and "select_columns
           (getColumns st (''RaStore.preferences.'' @ resource @ ''.datagrid.columns''))
           (getOmit st (''RaStore.preferences.'' @ resource @ ''.datagrid.omit''))
           (getAvailable st (''RaStore.preferences.'' @ resource @ ''.datagrid.availableColumns''))
         = Inr None"
  shows "\<exists>q. listQuery st resource p = (Inr q, p) \<and>
     fst ` set (fields_entries q) =
       (\<lambda>k. ''fields['' @ k @ '']'') ` set (keys (case fields_p p of None \<Rightarrow> [] | Some x \<Rightarrow> x))"
  using assms
  by (auto simp: getListQuery_def getListQuery_lib_def addFieldsToparams_def Let_def
      fields_entries_keys)

text \<open>
  A listed index that no available column has makes both list queries throw, after
  \<open>params.fields\<close> was set to the empty object.
\<close>

lemma list_query_unmatched_throws:
  assumes "listQuery = getListQuery \<or> listQuery = getListQuery_lib"
    and "getColumns st (''RaStore.preferences.'' @ resource @ ''.datagrid.columns'') = Some cs"
    and "getAvailable st (''RaStore.preferences.'' @ resource @ ''.datagrid.availableColumns'') =
           Some av"
    and "c \<in> set cs" and "List.find (\<lambda>a. index a = c) av = None"
  shows "listQuery st resource p = (Inl TypeError, p\<lparr>fields_p := Some []\<rparr>)"
proof -
  from assms(4,5) have "None \<in> set (map (\<lambda>c. List.find (\<lambda>a. index a = c) av) cs)"
    by force
  then have "sources (map (\<lambda>c. List.find (\<lambda>a. index a = c) av) cs) = Inl TypeError"
    by (rule sources_unmatched)
  with assms(1-3) show ?thesis
    by (auto simp: getListQuery_def getListQuery_lib_def addFieldsToparams_def Let_def
        select_listed)
qed

text \<open>
  \<open>src/index.js\<close> builds the GET_MANY request with the configured key, and its
  GET_MANY_REFERENCE query has the pagination, every filter other than the target, the
  reference id under the target, and the sort.
\<close>

lemma get_many_request:
  "buildRequest e st apiUrl s GET_MANY resource p h =
     (Inr \<lparr>url = apiUrl @ ''/'' @ resource @ ''?'' @
             stringify e [(''filter['' @ getManyKey s @ '']'', Arr (ids p))] (Some (arrayFormat s)),
           req_headers = headers s, method_r = None, req_data = None\<rparr>, p, h)"
  by (simp add: buildRequest_def actions_defs)

lemma reference_query_pages:
  "map_of (add_entries ''filter'' f (page_query p)) ''page[number]'' = Some (page (pagination p)) \<and>
   map_of (add_entries ''filter'' f (page_query p)) ''page[size]'' = Some (perPage (pagination p))"
  by (simp add: map_of_add_entries_miss map_of_page_query)

lemma reference_query_src:
  "map_of (getManyReferenceQuery p) ''page[number]'' = Some (page (pagination p)) \<and>
   map_of (getManyReferenceQuery p) ''page[size]'' = Some (perPage (pagination p)) \<and>
   map_of (getManyReferenceQuery p) (''filter['' @ target p @ '']'') = Some (id_p p) \<and>
   (filter_p p = Some flt \<and> map_of flt k = Some v \<and> k \<noteq> target p \<longrightarrow>
      map_of (getManyReferenceQuery p) (''filter['' @ k @ '']'') = Some v) \<and>
   (f \<noteq> [] \<and> sort_p p = Some \<lparr>field = Some f, order = Some ''DESC''\<rparr> \<longrightarrow>
      map_of (getManyReferenceQuery p) ''sort'' = Some (Str (''-'' @ f))) \<and>
   (f \<noteq> [] \<and> sort_p p = Some \<lparr>field = Some f, order = Some ''ASC''\<rparr> \<longrightarrow>
      map_of (getManyReferenceQuery p) ''sort'' = Some (Str f))"
proof -
  let ?q1 = "add_entries ''filter'' (filter_p p) (page_query p)"
  let ?q2 = "set_prop (''filter['' @ target p @ '']'') (id_p p) ?q1"
  have s: "map_of ?q2 ''sort'' = None"
    by (simp add: set_prop_def AList.update_conv' map_of_add_entries_miss sort_not_entry)
  have a: "map_of ?q2 ''page[number]'' = Some (page (pagination p))"
    "map_of ?q2 ''page[size]'' = Some (perPage (pagination p))"
    "map_of ?q2 (''filter['' @ target p @ '']'') = Some (id_p p)"
    by (auto simp: set_prop_def AList.update_conv' reference_query_pages)
  have "filter_p p = Some flt \<and> map_of flt k = Some v \<and> k \<noteq> target p \<longrightarrow>
      map_of ?q2 (''filter['' @ k @ '']'') = Some v"
    using map_of_add_entries_hit [of flt k v "''filter''" "page_query p"]
    by (auto simp: set_prop_def AList.update_conv')
  with a show ?thesis
    using add_sort_cases [OF s, of f "sort_p p"]
    by (simp add: getManyReferenceQuery_def map_of_add_sort_other)
qed

lemma reference_query_lib_no_sort: "map_of (getManyReferenceQuery_lib p) ''sort'' = None"
  by (simp add: getManyReferenceQuery_lib_def set_prop_def AList.update_conv'
      map_of_add_entries_miss sort_not_entry)

section \<open>Properties\<close>

text \<open>
  C1, as the code has it. For a collection request (GET_LIST, GET_MANY,
  GET_MANY_REFERENCE) answered with an array of resource objects, the total of the
  result is the value read from the meta object for \<open>settings.total\<close> when the
  response has a meta object, the setting is given and that value is truthy; in every
  other case, a value of 0 included, it is the length of the data array.
  The two files read the value differently. \<open>src/index.js\<close> reads the whole name as
  one member of the meta object. The built file hands the meta object and the name to
  the helper \<open>getValue\<close>: whatever the helper answers is gated in the same way; with
  the helper of the specification the name is a dotted path into the meta object, so
  that a name without dots gives the total of \<open>src/index.js\<close>, and a name \<open>a.b\<close> whose
  first part is an object of the meta object gives the member \<open>b\<close> of that object.
\<close>

theorem collection_total:
  assumes "type \<in> set [GET_LIST, GET_MANY, GET_MANY_REFERENCE]"
    and "doc_data response = Many xs"
  shows "result_total (handleResponse s type response p) =
       Some (case (doc_meta response, total_s s) of
               (Some m, Some k) \<Rightarrow>
                 if k \<noteq> [] \<and> truthy (member m k) then member m k else Num (int (length xs))
             | _ \<Rightarrow> Num (int (length xs))) \<and>
     result_total (handleResponse_lib e s type response p) =
       Some (case (doc_meta response, total_s s) of
               (Some m, Some k) \<Rightarrow>
                 if k \<noteq> [] \<and> truthy (getValue e m k) then getValue e m k else Num (int (length xs))
             | _ \<Rightarrow> Num (int (length xs))) \<and>
     (getValue e = helpers_getValue \<and> (\<forall>k. total_s s = Some k \<longrightarrow> CHR ''.'' \<notin> set k) \<longrightarrow>
        result_total (handleResponse_lib e s type response p) =
        result_total (handleResponse s type response p)) \<and>
     (getValue e = helpers_getValue \<and> doc_meta response = Some m \<and>
      total_s s = Some (a @ ''.'' @ b) \<and> CHR ''.'' \<notin> set a \<and> CHR ''.'' \<notin> set b \<and>
      member m a = Obj inner \<longrightarrow>
        result_total (handleResponse_lib e s type response p) =
          Some (if truthy (member inner b) then member inner b else Num (int (length xs))))"
proof (intro conjI impI)
  show "result_total (handleResponse s type response p) =
       Some (case (doc_meta response, total_s s) of
               (Some m, Some k) \<Rightarrow>
                 if k \<noteq> [] \<and> truthy (member m k) then member m k else Num (int (length xs))
             | _ \<Rightarrow> Num (int (length xs)))"
    using assms by (rule collection_total_src)
next
  show "result_total (handleResponse_lib e s type response p) =
       Some (case (doc_meta response, total_s s) of
               (Some m, Some k) \<Rightarrow>
                 if k \<noteq> [] \<and> truthy (getValue e m k) then getValue e m k else Num (int (length xs))
             | _ \<Rightarrow> Num (int (length xs)))"
    using assms by (rule collection_total_lib)
next
  assume a: "getValue e = helpers_getValue \<and> (\<forall>k. total_s s = Some k \<longrightarrow> CHR ''.'' \<notin> set k)"
  show "result_total (handleResponse_lib e s type response p) =
        result_total (handleResponse s type response p)"
    using a
    by (simp add: collection_total_src [OF assms] collection_total_lib [OF assms]
        helpers_getValue_plain split: option.splits)
next
  assume a: "getValue e = helpers_getValue \<and> doc_meta response = Some m \<and>
      total_s s = Some (a @ ''.'' @ b) \<and> CHR ''.'' \<notin> set a \<and> CHR ''.'' \<notin> set b \<and>
      member m a = Obj inner"
  then have "getValue e m (a @ ''.'' @ b) = member inner b"
    by (simp add: helpers_getValue_nested helpers_getValue_plain)
  with a show "result_total (handleResponse_lib e s type response p) =
          Some (if truthy (member inner b) then member inner b else Num (int (length xs)))"
    by (simp add: collection_total_lib [OF assms])
qed

text \<open>
  The theorem at a response of three records: a meta count of 42 is the total of both
  files under the setting \<open>count\<close>, without the setting the total is 3, and under the
  setting \<open>page.total\<close> the built file, with the helper of the specification, reads
  the total 42 from the meta object \<open>{ page: { total: 42 } }\<close>.
\<close>

theorem collection_total_witness:
  "GET_MANY \<in> set [GET_LIST, GET_MANY, GET_MANY_REFERENCE] \<and>
   result_total (handleResponse sample_settings GET_MANY
      (three_records\<lparr>doc_meta := Some [(''count'', Num 42)]\<rparr>) sample_params) = Some (Num 42) \<and>
   result_total (handleResponse_lib sample_env sample_settings GET_MANY
      (three_records\<lparr>doc_meta := Some [(''count'', Num 42)]\<rparr>) sample_params) =
     result_total (handleResponse sample_settings GET_MANY
      (three_records\<lparr>doc_meta := Some [(''count'', Num 42)]\<rparr>) sample_params) \<and>
   result_total (handleResponse (sample_settings\<lparr>total_s := None\<rparr>) GET_MANY
      (three_records\<lparr>doc_meta := Some [(''count'', Num 42)]\<rparr>) sample_params) = Some (Num 3) \<and>
   result_total (handleResponse_lib sample_env (sample_settings\<lparr>total_s := Some ''page.total''\<rparr>)
      GET_MANY (three_records\<lparr>doc_meta := Some [(''page'', Obj [(''total'', Num 42)])]\<rparr>)
      sample_params) = Some (Num 42)"
proof -
  let ?doc = "three_records\<lparr>doc_meta := Some [(''count'', Num 42)]\<rparr>"
  let ?nested = "three_records\<lparr>doc_meta := Some [(''page'', Obj [(''total'', Num 42)])]\<rparr>"
  let ?dotted = "sample_settings\<lparr>total_s := Some ''page.total''\<rparr>"
  have t: "GET_MANY \<in> set [GET_LIST, GET_MANY, GET_MANY_REFERENCE]" by simp
  have d: "doc_data ?doc = Many [\<lparr>res_id = Num 1, attributes = []\<rparr>,
      \<lparr>res_id = Num 2, attributes = []\<rparr>, \<lparr>res_id = Num 3, attributes = []\<rparr>]"
    by (simp add: three_records_def)
  have n: "doc_data ?nested = Many [\<lparr>res_id = Num 1, attributes = []\<rparr>,
      \<lparr>res_id = Num 2, attributes = []\<rparr>, \<lparr>res_id = Num 3, attributes = []\<rparr>]"
    by (simp add: three_records_def)
  have g: "getValue sample_env = helpers_getValue" by (simp add: sample_env_def)
  have 1: "result_total (handleResponse sample_settings GET_MANY ?doc sample_params) = Some (Num 42)"
    using collection_total [OF t d, of sample_settings sample_params sample_env, THEN conjunct1]
    by (simp add: sample_settings_def three_records_def member_def)
  have plain: "\<forall>k. total_s sample_settings = Some k \<longrightarrow> CHR ''.'' \<notin> set k"
    by (simp add: sample_settings_def)
  have 2: "result_total (handleResponse_lib sample_env sample_settings GET_MANY ?doc sample_params) =
      result_total (handleResponse sample_settings GET_MANY ?doc sample_params)"
    using collection_total [OF t d, of sample_settings sample_params sample_env,
        THEN conjunct2, THEN conjunct2, THEN conjunct1] g plain
    by blast
  have 3: "result_total (handleResponse (sample_settings\<lparr>total_s := None\<rparr>) GET_MANY ?doc
      sample_params) = Some (Num 3)"
    using collection_total [OF t d, of "sample_settings\<lparr>total_s := None\<rparr>" sample_params
        sample_env, THEN conjunct1]
    by (simp add: sample_settings_def three_records_def)
  have m: "doc_meta ?nested = Some [(''page'', Obj [(''total'', Num 42)])]"
    and k: "total_s ?dotted = Some (''page'' @ ''.'' @ ''total'')"
    and a: "CHR ''.'' \<notin> set ''page''" and b: "CHR ''.'' \<notin> set ''total''"
    and i: "member [(''page'', Obj [(''total'', Num 42)])] ''page'' = Obj [(''total'', Num 42)]"
    by (simp_all add: three_records_def sample_settings_def member_def)
  have 4: "result_total (handleResponse_lib sample_env ?dotted GET_MANY ?nested sample_params) =
      Some (Num 42)"
    using collection_total [OF t n, of ?dotted sample_params sample_env
        "[(''page'', Obj [(''total'', Num 42)])]" "''page''" "''total''" "[(''total'', Num 42)]",
        THEN conjunct2, THEN conjunct2, THEN conjunct2] g m k a b i
    by (simp add: member_def)
  from t 1 2 3 4 show ?thesis by simp
qed

text \<open>
  Where the claim as the specification states it fails. A present total of 0 is not
  returned as 0: with \<open>settings.total = "count"\<close> and the response
  \<open>{ data: [3 records], meta: { count: 0 } }\<close> both handlers answer with the total 3.
  And \<open>src/index.js\<close> has no nested lookup: with \<open>settings.total = "page.total"\<close> and the
  meta object \<open>{ page: { total: 42 } }\<close> it answers with the total 3, where the built
  file, with the helper of the specification, answers with 42.
\<close>

theorem total_resolution_fails:
  "doc_meta three_records = Some [(''count'', Num 0)] \<and>
   total_s sample_settings = Some ''count'' \<and>
   handleResponse sample_settings GET_LIST three_records sample_params =
     Inr (Obj [(''data'', Arr [Obj [(''id'', Num 1)], Obj [(''id'', Num 2)], Obj [(''id'', Num 3)]]),
               (''total'', Num 3)]) \<and>
   handleResponse_lib sample_env sample_settings GET_LIST three_records sample_params =
     Inr (Obj [(''data'', Arr [Obj [(''id'', Num 1)], Obj [(''id'', Num 2)], Obj [(''id'', Num 3)]]),
               (''total'', Num 3), (''meta'', Obj [(''count'', Num 0)])]) \<and>
   handleResponse (sample_settings\<lparr>total_s := Some ''page.total''\<rparr>) GET_LIST
       (three_records\<lparr>doc_meta := Some [(''page'', Obj [(''total'', Num 42)])]\<rparr>) sample_params =
     Inr (Obj [(''data'', Arr [Obj [(''id'', Num 1)], Obj [(''id'', Num 2)], Obj [(''id'', Num 3)]]),
               (''total'', Num 3)]) \<and>
   handleResponse_lib sample_env (sample_settings\<lparr>total_s := Some ''page.total''\<rparr>) GET_LIST
       (three_records\<lparr>doc_meta := Some [(''page'', Obj [(''total'', Num 42)])]\<rparr>) sample_params =
     Inr (Obj [(''data'', Arr [Obj [(''id'', Num 1)], Obj [(''id'', Num 2)], Obj [(''id'', Num 3)]]),
               (''total'', Num 42), (''meta'', Obj [(''page'', Obj [(''total'', Num 42)])])])"
  by (simp add: handleResponse_def handleResponse_lib_def resolve_total_def resolve_total_lib_def
      meta_total_def meta_total_lib_def map_records_def assign_record_def meta_json_def
      helpers_getValue_def member_def object_prototype_names_def get_prop_def keys_def
      set_prop_def actions_defs sample_defs)

text \<open>
  C2. For every UPDATE call, whatever \<open>params.data\<close> holds, the request is sent with
  the method \<open>settings.updateMethod\<close> and the body is the serialization of
  \<open>{ data: { id: params.id, type: resource, attributes } }\<close>, where \<open>attributes\<close> is
  the record data without its \<open>id\<close> key and with every other key as it was. This holds
  for the switch of \<open>src/index.js\<close> and for the one of the built file.
\<close>

theorem update_body_strips_id:
  assumes "build = buildRequest \<or> build = buildRequest_lib"
  shows "\<exists>attrs h'.
     build e st apiUrl s UPDATE resource p h =
       (Inr \<lparr>url = apiUrl @ ''/'' @ resource @ ''/'' @ toString e (id_p p),
             req_headers = headers s,
             method_r = Some (updateMethod s),
             req_data = Some (JSON_stringify e
               (Obj [(''data'', Obj [(''id'', id_p p), (''type'', Str resource),
                                     (''attributes'', Obj attrs)])]))\<rparr>, p, h') \<and>
     attrs = delete_prop ''id'' (h (data p)) \<and>
     ''id'' \<notin> set (keys attrs) \<and>
     (\<forall>k. k \<noteq> ''id'' \<longrightarrow> map_of attrs k = map_of (h (data p)) k)"
  using assms
  by (auto simp: buildRequest_def buildRequest_lib_def actions_defs Let_def
      map_of_delete_prop delete_prop_keys)

text \<open>
  The theorem at the record data \<open>{ id: 7, title: "t" }\<close>.
\<close>

theorem update_body_strips_id_witness:
  "\<exists>h'. buildRequest sample_env no_prefs ''http://api'' sample_settings UPDATE ''posts''
       sample_params sample_heap =
       (Inr \<lparr>url = ''http://api/posts/7'', req_headers = [], method_r = Some ''PATCH'',
             req_data = Some (JSON_stringify sample_env
               (Obj [(''data'', Obj [(''id'', Num 7), (''type'', Str ''posts''),
                                     (''attributes'', Obj [(''title'', Str ''t'')])])]))\<rparr>,
        sample_params, h') \<and>
     ''id'' \<notin> set (keys [(''title'', Str ''t'')])"
  using update_body_strips_id [OF disjI1 [OF refl], of sample_env no_prefs "''http://api''"
      sample_settings "''posts''" sample_params sample_heap]
  by (auto simp: sample_defs delete_prop_def)

text \<open>
  C3. The claim holds for \<open>src/index.js\<close> (\<open>get_many_request\<close> above) and fails for
  the built file, which writes the key \<open>filter[id]\<close> whatever \<open>settings.getManyKey\<close> is:
  with the key set to \<open>uuid\<close> and the ids 1, 2, 3 the built file serializes
  \<open>{ "filter[id]": [1, 2, 3] }\<close> where \<open>src/index.js\<close> serializes
  \<open>{ "filter[uuid]": [1, 2, 3] }\<close>.
\<close>

theorem get_many_lib_ignores_key:
  "getManyKey (sample_settings\<lparr>getManyKey := ''uuid''\<rparr>) = ''uuid'' \<and>
   buildRequest_lib e st ''http://api'' (sample_settings\<lparr>getManyKey := ''uuid''\<rparr>) GET_MANY
       ''posts'' sample_params h =
     (Inr \<lparr>url = ''http://api/posts?'' @
             stringify e [(''filter[id]'', Arr [Num 1, Num 2, Num 3])] (Some ''brackets''),
           req_headers = [], method_r = None, req_data = None\<rparr>, sample_params, h) \<and>
   buildRequest e st ''http://api'' (sample_settings\<lparr>getManyKey := ''uuid''\<rparr>) GET_MANY
       ''posts'' sample_params h =
     (Inr \<lparr>url = ''http://api/posts?'' @
             stringify e [(''filter[uuid]'', Arr [Num 1, Num 2, Num 3])] (Some ''brackets''),
           req_headers = [], method_r = None, req_data = None\<rparr>, sample_params, h)"
  by (simp add: buildRequest_lib_def buildRequest_def actions_defs sample_settings_def
      sample_params_def)

text \<open>
  C4. The claim holds for \<open>src/index.js\<close> (\<open>reference_query_src\<close> above) and fails for
  the built file, whose GET_MANY_REFERENCE query never has a sort parameter
  (\<open>reference_query_lib_no_sort\<close>): for a request sorted by \<open>name\<close>, descending, the
  built file serializes the pagination and the filters only, and \<open>src/index.js\<close>
  adds \<open>sort = "-name"\<close>.
\<close>

theorem get_many_reference_lib_drops_sort:
  "sort_p sample_params = Some \<lparr>field = Some ''name'', order = Some ''DESC''\<rparr> \<and>
   buildRequest_lib e st ''http://api'' sample_settings GET_MANY_REFERENCE ''comments''
       sample_params h =
     (Inr \<lparr>url = ''http://api/comments?'' @
             stringify e [(''page[number]'', Num 1), (''page[size]'', Num 10),
                          (''filter[author]'', Str ''ann''), (''filter[post_id]'', Num 7)] None,
           req_headers = [], method_r = None, req_data = None\<rparr>, sample_params, h) \<and>
   buildRequest e st ''http://api'' sample_settings GET_MANY_REFERENCE ''comments''
       sample_params h =
     (Inr \<lparr>url = ''http://api/comments?'' @
             stringify e [(''page[number]'', Num 1), (''page[size]'', Num 10),
                          (''filter[author]'', Str ''ann''), (''filter[post_id]'', Num 7),
                          (''sort'', Str ''-name'')] None,
           req_headers = [], method_r = None, req_data = None\<rparr>, sample_params, h)"
  by (simp add: buildRequest_lib_def buildRequest_def actions_defs sample_settings_def
      sample_params_def query_defs)

text \<open>
  C5, as the code has it. For a LIST call, over the three persisted sets of the
  resource and with T the last path segment of the resource:
  if a column list is stored, the available columns are stored and every listed
  index is the index of an available column, the query has exactly one \<open>fields[T]\<close>
  parameter, the comma-joined sources of the first available column of each listed
  index, in listed order;
  else if an omit list without the empty string is stored together with the available
  columns, it is the joined sources of the available columns whose source is not in
  the omit list;
  else if only the available columns are stored, it is the joined sources of all of
  them;
  and when all three sets are null the query has no \<open>fields\<close> parameter of the
  provider's own: it has none when the caller gave no \<open>params.fields\<close>, and
  otherwise one per group of the caller's \<open>params.fields\<close>.
  This holds for the list query of \<open>src/index.js\<close> and for the one of the built file.
\<close>

theorem list_field_selection:
  assumes "listQuery = getListQuery \<or> listQuery = getListQuery_lib"
    and "getColumns st (''RaStore.preferences.'' @ resource @ ''.datagrid.columns'') = columns"
    and "getOmit st (''RaStore.preferences.'' @ resource @ ''.datagrid.omit'') = omit"
    and "getAvailable st (''RaStore.preferences.'' @ resource @ ''.datagrid.availableColumns'') =
           available"
    and "T = last (split_on CHR ''/'' resource)"
  shows
    "(columns = Some cs \<and> available = Some av \<and>
        map (\<lambda>c. List.find (\<lambda>a. index a = c) av) cs = map Some sel \<longrightarrow>
      emitted_fields (listQuery st resource p) =
        Some [(''fields['' @ T @ '']'', Str (join '','' (map source sel)))]) \<and>
     (columns = None \<and> omit = Some om \<and> [] \<notin> set om \<and> available = Some av \<longrightarrow>
      emitted_fields (listQuery st resource p) =
        Some [(''fields['' @ T @ '']'',
               Str (join '','' (map source (filter (\<lambda>a. source a \<notin> set om) av))))]) \<and>
     (columns = None \<and> omit = None \<and> available = Some av \<longrightarrow>
      emitted_fields (listQuery st resource p) =
        Some [(''fields['' @ T @ '']'', Str (join '','' (map source av)))]) \<and>
     (columns = None \<and> omit = None \<and> available = None \<and> fields_p p = None \<longrightarrow>
      emitted_fields (listQuery st resource p) = Some []) \<and>
     (columns = None \<and> omit = None \<and> available = None \<and> fields_p p = Some given \<longrightarrow>
      (\<exists>fs. emitted_fields (listQuery st resource p) = Some fs \<and>
         fst ` set fs = (\<lambda>k. ''fields['' @ k @ '']'') ` set (keys given)))"
proof (intro conjI impI)
  assume "columns = Some cs \<and> available = Some av \<and>
        map (\<lambda>c. List.find (\<lambda>a. index a = c) av) cs = map Some sel"
  with assms(2-4) list_query_selected [OF assms(1), of st resource sel p]
  show "emitted_fields (listQuery st resource p) =
        Some [(''fields['' @ T @ '']'', Str (join '','' (map source sel)))]"
    by (auto simp: select_listed emitted_fields_def assms(5))
next
  assume "columns = None \<and> omit = Some om \<and> [] \<notin> set om \<and> available = Some av"
  with assms(2-4)
    list_query_selected [OF assms(1), of st resource "filter (\<lambda>a. source a \<notin> set om) av" p]
  show "emitted_fields (listQuery st resource p) =
        Some [(''fields['' @ T @ '']'',
               Str (join '','' (map source (filter (\<lambda>a. source a \<notin> set om) av))))]"
    by (auto simp: select_omit omitted_iff emitted_fields_def assms(5))
next
  assume "columns = None \<and> omit = None \<and> available = Some av"
  with assms(2-4) list_query_selected [OF assms(1), of st resource av p]
  show "emitted_fields (listQuery st resource p) =
        Some [(''fields['' @ T @ '']'', Str (join '','' (map source av)))]"
    by (auto simp: select_all emitted_fields_def assms(5))
next
  assume "columns = None \<and> omit = None \<and> available = None \<and> fields_p p = None"
  with assms(2-4) list_query_unselected [OF assms(1), of st resource p]
  show "emitted_fields (listQuery st resource p) = Some []"
    by (auto simp: select_all emitted_fields_def keys_def)
next
  assume "columns = None \<and> omit = None \<and> available = None \<and> fields_p p = Some given"
  with assms(2-4) list_query_unselected [OF assms(1), of st resource p]
  show "\<exists>fs. emitted_fields (listQuery st resource p) = Some fs \<and>
         fst ` set fs = (\<lambda>k. ''fields['' @ k @ '']'') ` set (keys given)"
    by (auto simp: select_all emitted_fields_def)
qed

text \<open>
  The theorem at the example of the specification and around it: the columns
  \<open>["2", "1"]\<close> give \<open>body,title\<close>, the omit list \<open>["body"]\<close> gives \<open>title\<close>,
  the available columns alone give \<open>title,body\<close> (for the resource \<open>blog/posts\<close>,
  under \<open>fields[posts]\<close>), nothing stored gives no parameter, and the caller's own
  \<open>params.fields\<close> gives its parameter.
\<close>

theorem list_field_selection_witness:
  "emitted_fields (getListQuery (listed_prefs [''2'', ''1'']) ''posts'' sample_params) =
     Some [(''fields[posts]'', Str ''body,title'')] \<and>
   emitted_fields (getListQuery_lib omit_prefs ''posts'' sample_params) =
     Some [(''fields[posts]'', Str ''title'')] \<and>
   emitted_fields (getListQuery nested_prefs ''blog/posts'' sample_params) =
     Some [(''fields[posts]'', Str ''title,body'')] \<and>
   emitted_fields (getListQuery_lib no_prefs ''posts'' sample_params) = Some [] \<and>
   (\<exists>fs. emitted_fields (getListQuery no_prefs ''posts''
            (sample_params\<lparr>fields_p := Some [(''posts'', Str ''title'')]\<rparr>)) = Some fs \<and>
      fst ` set fs = {''fields[posts]''})"
proof (intro conjI)
  show "emitted_fields (getListQuery (listed_prefs [''2'', ''1'']) ''posts'' sample_params) =
     Some [(''fields[posts]'', Str ''body,title'')]"
    using list_field_selection [where listQuery = getListQuery and st = "listed_prefs [''2'', ''1'']"
        and resource = "''posts''" and cs = "[''2'', ''1'']" and av = posts_columns
        and sel = "[\<lparr>index = ''2'', source = ''body''\<rparr>, \<lparr>index = ''1'', source = ''title''\<rparr>]"
        and p = sample_params, OF disjI1 [OF refl] refl refl refl refl]
    by (simp add: prefs_defs)
next
  show "emitted_fields (getListQuery_lib omit_prefs ''posts'' sample_params) =
     Some [(''fields[posts]'', Str ''title'')]"
    using list_field_selection [where listQuery = getListQuery_lib and st = omit_prefs
        and resource = "''posts''" and om = "[''body'']" and av = posts_columns
        and p = sample_params, OF disjI2 [OF refl] refl refl refl refl]
    by (simp add: prefs_defs)
next
  show "emitted_fields (getListQuery nested_prefs ''blog/posts'' sample_params) =
     Some [(''fields[posts]'', Str ''title,body'')]"
    using list_field_selection [where listQuery = getListQuery and st = nested_prefs
        and resource = "''blog/posts''" and av = posts_columns
        and p = sample_params, OF disjI1 [OF refl] refl refl refl refl]
    by (simp add: prefs_defs)
next
  show "emitted_fields (getListQuery_lib no_prefs ''posts'' sample_params) = Some []"
    using list_field_selection [where listQuery = getListQuery_lib and st = no_prefs
        and resource = "''posts''" and p = sample_params, OF disjI2 [OF refl] refl refl refl refl]
    by (simp add: prefs_defs sample_params_def)
next
  show "\<exists>fs. emitted_fields (getListQuery no_prefs ''posts''
            (sample_params\<lparr>fields_p := Some [(''posts'', Str ''title'')]\<rparr>)) = Some fs \<and>
      fst ` set fs = {''fields[posts]''}"
    using list_field_selection [where listQuery = getListQuery and st = no_prefs
        and resource = "''posts''" and given = "[(''posts'', Str ''title'')]"
        and p = "sample_params\<lparr>fields_p := Some [(''posts'', Str ''title'')]\<rparr>",
        OF disjI1 [OF refl] refl refl refl refl]
    by (simp add: prefs_defs keys_def)
qed

text \<open>
  Where the claim as the specification states it fails: a listed index that no
  available column has makes the call throw instead of selecting the columns that
  match; with nothing stored, the caller's \<open>params.fields\<close> is still emitted; and a
  column whose source is the empty string is kept although the omit list holds it.
\<close>

theorem field_selection_fails:
  "getListQuery (listed_prefs [''2'', ''9'']) ''posts'' sample_params =
     (Inl TypeError, sample_params\<lparr>fields_p := Some []\<rparr>) \<and>
   emitted_fields (getListQuery no_prefs ''posts''
       (sample_params\<lparr>fields_p := Some [(''posts'', Str ''title'')]\<rparr>)) =
     Some [(''fields[posts]'', Str ''title'')] \<and>
   emitted_fields (getListQuery empty_omit_prefs ''posts'' sample_params) =
     Some [(''fields[posts]'', Str '',body'')]"
  by (simp add: emitted_fields_def fields_entries_def query_defs prefs_defs sample_params_def)

text \<open>
  C6. A request type that is not a case label of the switch makes the provider throw
  \<open>NotImplementedError\<close> with the message
  \<open>Unsupported Data Provider request type\<close> followed by the type; the error is thrown
  by the call itself, no request reaches the transport, and the params object and
  the record data are left as they were. This holds for \<open>src/index.js\<close> and for the
  built file, each with the labels of its own switch.
\<close>

theorem unsupported_type_throws:
  "(type \<notin> set supported_types \<longrightarrow>
      dataProvider e st apiUrl s type resource p h =
        (Thrown (NotImplementedError (''Unsupported Data Provider request type '' @ type)),
         p, h, [])) \<and>
   (type \<notin> set supported_types_lib \<longrightarrow>
      dataProvider_lib e st apiUrl s type resource p h =
        (Thrown (NotImplementedError (''Unsupported Data Provider request type '' @ type)),
         p, h, []))"
  by (simp add: dataProvider_def dataProvider_lib_def buildRequest_def buildRequest_lib_def
      supported_types_def supported_types_lib_def unsupported_def)

text \<open>
  The theorem at the made-up type \<open>GET_EVERYTHING\<close>.
\<close>

theorem unsupported_type_throws_witness:
  "''GET_EVERYTHING'' \<notin> set supported_types \<and>
   ''GET_EVERYTHING'' \<notin> set supported_types_lib \<and>
   dataProvider sample_env omit_prefs ''http://api'' sample_settings ''GET_EVERYTHING'' ''posts''
     sample_params sample_heap =
     (Thrown (NotImplementedError ''Unsupported Data Provider request type GET_EVERYTHING''),
      sample_params, sample_heap, []) \<and>
   dataProvider_lib sample_env omit_prefs ''http://api'' sample_settings ''GET_EVERYTHING'' ''posts''
     sample_params sample_heap =
     (Thrown (NotImplementedError ''Unsupported Data Provider request type GET_EVERYTHING''),
      sample_params, sample_heap, [])"
proof -
  have a: "''GET_EVERYTHING'' \<notin> set supported_types"
    and b: "''GET_EVERYTHING'' \<notin> set supported_types_lib"
    by (simp_all add: supported_types_def supported_types_lib_def actions_defs)
  from unsupported_type_throws [of "''GET_EVERYTHING''" sample_env omit_prefs "''http://api''"
      sample_settings "''posts''" sample_params sample_heap] a b
  show ?thesis by simp
qed

text \<open>
  C7. For every DELETE call the normalized result is \<open>{ data: { id: params.id } }\<close>,
  whatever document the server answered with: the handler never reads the response.
  This holds for the handler of \<open>src/index.js\<close> and for the one of the built file.
\<close>

theorem delete_result_echoes_id:
  "handleResponse s DELETE response p = Inr (Obj [(''data'', Obj [(''id'', id_p p)])]) \<and>
   handleResponse_lib e s DELETE response p = Inr (Obj [(''data'', Obj [(''id'', id_p p)])])"
  by (simp add: handleResponse_def handleResponse_lib_def actions_defs)

text \<open>
  The theorem at a response of three records.
\<close>

theorem delete_result_echoes_id_witness:
  "handleResponse sample_settings DELETE three_records sample_params =
     Inr (Obj [(''data'', Obj [(''id'', Num 7)])]) \<and>
   handleResponse_lib sample_env sample_settings DELETE three_records sample_params =
     Inr (Obj [(''data'', Obj [(''id'', Num 7)])])"
  using delete_result_echoes_id [of sample_settings three_records sample_params sample_env]
  by (simp add: sample_params_def)

text \<open>
  C8. For every LIST call that builds its request, the query handed to
  \<open>qs.stringify\<close> has the parameter \<open>sort\<close> with the value \<open>-f\<close> when the sort field is
  a non-empty \<open>f\<close> and the order is \<open>DESC\<close>, with the value \<open>f\<close> when the order is
  \<open>ASC\<close>, and has no parameter \<open>sort\<close> when no sort field is given. This holds for
  \<open>src/index.js\<close> and for the built file.
\<close>

theorem list_sort_parameter:
  assumes "build = buildRequest \<or> build = buildRequest_lib"
    and "build e st apiUrl s GET_LIST resource p h = (Inr req, p', h')"
  shows "\<exists>query. url req = apiUrl @ ''/'' @ resource @ ''?'' @ stringify e query None \<and>
     (f \<noteq> [] \<and> sort_p p = Some \<lparr>field = Some f, order = Some ''DESC''\<rparr> \<longrightarrow>
        map_of query ''sort'' = Some (Str (''-'' @ f))) \<and>
     (f \<noteq> [] \<and> sort_p p = Some \<lparr>field = Some f, order = Some ''ASC''\<rparr> \<longrightarrow>
        map_of query ''sort'' = Some (Str f)) \<and>
     ((\<forall>x. sort_p p = Some x \<longrightarrow> field x = None \<or> field x = Some []) \<longrightarrow>
        map_of query ''sort'' = None)"
proof -
  have "\<exists>q q0. url req = apiUrl @ ''/'' @ resource @ ''?'' @ stringify e q None \<and>
      q = add_sort (sort_p p) q0 \<and> map_of q0 ''sort'' = None"
  proof (cases "build = buildRequest")
    case True
    with assms(2) obtain q where "getListQuery st resource p = (Inr q, p')"
      and "url req = apiUrl @ ''/'' @ resource @ ''?'' @ stringify e q None"
      by (auto dest!: buildRequest_list)
    then show ?thesis using getListQuery_shape by blast
  next
    case False
    with assms obtain q where "getListQuery_lib st resource p = (Inr q, p')"
      and "url req = apiUrl @ ''/'' @ resource @ ''?'' @ stringify e q None"
      by (auto dest!: buildRequest_lib_list)
    then show ?thesis using getListQuery_lib_shape by blast
  qed
  then obtain q q0 where u: "url req = apiUrl @ ''/'' @ resource @ ''?'' @ stringify e q None"
    and q: "q = add_sort (sort_p p) q0" and n: "map_of q0 ''sort'' = None" by blast
  from add_sort_cases [OF n, of f "sort_p p"] q u show ?thesis by blast
qed

text \<open>
  The theorem at the field \<open>name\<close>: descending, ascending, and with no sort.
\<close>

theorem list_sort_parameter_witness:
  "(\<exists>req p' h' query.
      buildRequest sample_env no_prefs ''http://api'' sample_settings GET_LIST ''posts''
        sample_params sample_heap = (Inr req, p', h') \<and>
      url req = ''http://api/posts?'' @ stringify sample_env query None \<and>
      map_of query ''sort'' = Some (Str ''-name'')) \<and>
   (\<exists>req p' h' query.
      buildRequest_lib sample_env omit_prefs ''http://api'' sample_settings GET_LIST ''posts''
        (sample_params\<lparr>sort_p := Some \<lparr>field = Some ''name'', order = Some ''ASC''\<rparr>\<rparr>)
        sample_heap = (Inr req, p', h') \<and>
      url req = ''http://api/posts?'' @ stringify sample_env query None \<and>
      map_of query ''sort'' = Some (Str ''name'')) \<and>
   (\<exists>req p' h' query.
      buildRequest sample_env omit_prefs ''http://api'' sample_settings GET_LIST ''posts''
        (sample_params\<lparr>sort_p := None\<rparr>) sample_heap = (Inr req, p', h') \<and>
      url req = ''http://api/posts?'' @ stringify sample_env query None \<and>
      map_of query ''sort'' = None)"
proof (intro conjI)
  obtain req p' h' where b: "buildRequest sample_env no_prefs ''http://api'' sample_settings
      GET_LIST ''posts'' sample_params sample_heap = (Inr req, p', h')"
    by (simp add: buildRequest_def query_defs sample_defs prefs_defs actions_defs)
  have s: "sort_p sample_params = Some \<lparr>field = Some ''name'', order = Some ''DESC''\<rparr>"
    by (simp add: sample_params_def)
  from list_sort_parameter [OF disjI1 [OF refl] b, of "''name''"] s
  show "\<exists>req p' h' query.
      buildRequest sample_env no_prefs ''http://api'' sample_settings GET_LIST ''posts''
        sample_params sample_heap = (Inr req, p', h') \<and>
      url req = ''http://api/posts?'' @ stringify sample_env query None \<and>
      map_of query ''sort'' = Some (Str ''-name'')"
    using b by auto
next
  let ?p = "sample_params\<lparr>sort_p := Some \<lparr>field = Some ''name'', order = Some ''ASC''\<rparr>\<rparr>"
  obtain req p' h' where b: "buildRequest_lib sample_env omit_prefs ''http://api'' sample_settings
      GET_LIST ''posts'' ?p sample_heap = (Inr req, p', h')"
    by (simp add: buildRequest_lib_def query_defs sample_defs prefs_defs actions_defs)
  from list_sort_parameter [OF disjI2 [OF refl] b, of "''name''"]
  show "\<exists>req p' h' query.
      buildRequest_lib sample_env omit_prefs ''http://api'' sample_settings GET_LIST ''posts''
        ?p sample_heap = (Inr req, p', h') \<and>
      url req = ''http://api/posts?'' @ stringify sample_env query None \<and>
      map_of query ''sort'' = Some (Str ''name'')"
    using b by auto
next
  let ?p = "sample_params\<lparr>sort_p := None\<rparr>"
  obtain req p' h' where b: "buildRequest sample_env omit_prefs ''http://api'' sample_settings
      GET_LIST ''posts'' ?p sample_heap = (Inr req, p', h')"
    by (simp add: buildRequest_def query_defs sample_defs prefs_defs actions_defs)
  from list_sort_parameter [OF disjI1 [OF refl] b, of "''name''"]
  show "\<exists>req p' h' query.
      buildRequest sample_env omit_prefs ''http://api'' sample_settings GET_LIST ''posts''
        ?p sample_heap = (Inr req, p', h') \<and>
      url req = ''http://api/posts?'' @ stringify sample_env query None \<and>
      map_of query ''sort'' = None"
    using b by auto
qed

text \<open>
  C9. Every UPDATE call deletes the key \<open>id\<close> from the object that \<open>params.data\<close>
  refers to: after the call, whatever its outcome, the store holds the stripped object
  at the address of the caller's record data and is unchanged elsewhere, and the
  attributes that were serialized into the request are that same object. This holds
  for \<open>src/index.js\<close> and for the built file.
\<close>

theorem update_mutates_caller_data:
  assumes "provider = dataProvider \<or> provider = dataProvider_lib"
  shows "\<exists>out calls h'.
     provider e st apiUrl s UPDATE resource p h = (out, p, h', calls) \<and>
     h' = h(data p := delete_prop ''id'' (h (data p))) \<and>
     ''id'' \<notin> set (keys (h' (data p))) \<and>
     (\<exists>req. calls = [req] \<and>
        req_data req = Some (JSON_stringify e
          (Obj [(''data'', Obj [(''id'', id_p p), (''type'', Str resource),
                                (''attributes'', Obj (h' (data p)))])])))"
  using assms
  by (auto simp: dataProvider_def dataProvider_lib_def buildRequest_def buildRequest_lib_def
      actions_defs Let_def delete_prop_keys split: sum.splits)

text \<open>
  The theorem at the record data \<open>{ id: 7, title: "t" }\<close>, held at address 0.
\<close>

theorem update_mutates_caller_data_witness:
  "\<exists>out calls h'.
     dataProvider_lib sample_env no_prefs ''http://api'' sample_settings UPDATE ''posts''
       sample_params sample_heap = (out, sample_params, h', calls) \<and>
     sample_heap 0 = [(''id'', Num 7), (''title'', Str ''t'')] \<and>
     h' 0 = [(''title'', Str ''t'')] \<and>
     (\<exists>req. calls = [req] \<and>
        req_data req = Some (JSON_stringify sample_env
          (Obj [(''data'', Obj [(''id'', Num 7), (''type'', Str ''posts''),
                                (''attributes'', Obj (h' 0))])])))"
  using update_mutates_caller_data [OF disjI2 [OF refl], of sample_env no_prefs "''http://api''"
      sample_settings "''posts''" sample_params sample_heap]
  by (auto simp: sample_params_def sample_heap_def delete_prop_def)

text \<open>
  C10, as the code has it. For a LIST call, if the available columns are null while
  an omit list is stored or a non-empty column list is stored, the call throws a
  \<open>TypeError\<close> before any request reaches the transport, leaving the params object
  and the record data as they were; so a LIST call that does not throw has the
  available columns stored whenever an omit list or a non-empty column list is. This
  holds for \<open>src/index.js\<close> and for the built file.
\<close>

theorem list_null_available_throws:
  assumes "provider = dataProvider \<or> provider = dataProvider_lib"
    and "getColumns st (''RaStore.preferences.'' @ resource @ ''.datagrid.columns'') = columns"
    and "getOmit st (''RaStore.preferences.'' @ resource @ ''.datagrid.omit'') = omit"
    and "getAvailable st (''RaStore.preferences.'' @ resource @ ''.datagrid.availableColumns'') =
           available"
  shows
    "(available = None \<and> (omit \<noteq> None \<or> (\<exists>c cs. columns = Some (c # cs))) \<longrightarrow>
        provider e st apiUrl s GET_LIST resource p h = (Thrown TypeError, p, h, [])) \<and>
     ((\<forall>err. fst (provider e st apiUrl s GET_LIST resource p h) \<noteq> Thrown err) \<and>
        (omit \<noteq> None \<or> (\<exists>c cs. columns = Some (c # cs))) \<longrightarrow> available \<noteq> None)"
proof -
  have "provider e st apiUrl s GET_LIST resource p h = (Thrown TypeError, p, h, [])"
    if a: "available = None" and b: "omit \<noteq> None \<or> (\<exists>c cs. columns = Some (c # cs))"
  proof -
    from select_null [OF b] a have "select_columns columns omit available = Inl TypeError"
      by simp
    with assms(2-4) have "addFieldsToparams st resource p = (Some TypeError, p)"
      by (simp add: addFieldsToparams_def)
    with assms(1) show ?thesis
      by (auto simp: dataProvider_def dataProvider_lib_def buildRequest_def buildRequest_lib_def
          getListQuery_def getListQuery_lib_def)
  qed
  then show ?thesis by (metis fst_conv)
qed

text \<open>
  The theorem at an omit list without available columns, at a column list without
  available columns, and at the preferences of the example, which do not throw.
\<close>

theorem list_null_available_throws_witness:
  "getOmit (omit_prefs\<lparr>getAvailable := (\<lambda>k. None)\<rparr>) ''RaStore.preferences.posts.datagrid.omit''
     = Some [''body''] \<and>
   dataProvider sample_env (omit_prefs\<lparr>getAvailable := (\<lambda>k. None)\<rparr>) ''http://api''
       sample_settings GET_LIST ''posts'' sample_params sample_heap =
     (Thrown TypeError, sample_params, sample_heap, []) \<and>
   dataProvider_lib sample_env ((listed_prefs [''1''])\<lparr>getAvailable := (\<lambda>k. None)\<rparr>) ''http://api''
       sample_settings GET_LIST ''posts'' sample_params sample_heap =
     (Thrown TypeError, sample_params, sample_heap, []) \<and>
   getAvailable omit_prefs ''RaStore.preferences.posts.datagrid.availableColumns'' \<noteq> None"
proof (intro conjI)
  show "getOmit (omit_prefs\<lparr>getAvailable := (\<lambda>k. None)\<rparr>)
      ''RaStore.preferences.posts.datagrid.omit'' = Some [''body'']"
    by (simp add: prefs_defs)
next
  show "dataProvider sample_env (omit_prefs\<lparr>getAvailable := (\<lambda>k. None)\<rparr>) ''http://api''
       sample_settings GET_LIST ''posts'' sample_params sample_heap =
     (Thrown TypeError, sample_params, sample_heap, [])"
    using list_null_available_throws [where provider = dataProvider
        and st = "omit_prefs\<lparr>getAvailable := (\<lambda>k. None)\<rparr>" and resource = "''posts''",
        OF disjI1 [OF refl] refl refl refl]
    by (simp add: prefs_defs)
next
  show "dataProvider_lib sample_env ((listed_prefs [''1''])\<lparr>getAvailable := (\<lambda>k. None)\<rparr>)
       ''http://api'' sample_settings GET_LIST ''posts'' sample_params sample_heap =
     (Thrown TypeError, sample_params, sample_heap, [])"
    using list_null_available_throws [where provider = dataProvider_lib
        and st = "(listed_prefs [''1''])\<lparr>getAvailable := (\<lambda>k. None)\<rparr>" and resource = "''posts''",
        OF disjI2 [OF refl] refl refl refl]
    by (simp add: prefs_defs)
next
  have "\<forall>err. fst (dataProvider sample_env omit_prefs ''http://api'' sample_settings GET_LIST
      ''posts'' sample_params sample_heap) \<noteq> Thrown err"
    by (simp add: dataProvider_def buildRequest_def handleResponse_def resolve_total_def
        meta_total_def map_records_def query_defs prefs_defs sample_defs actions_defs)
  then show "getAvailable omit_prefs ''RaStore.preferences.posts.datagrid.availableColumns'' \<noteq> None"
    using list_null_available_throws [where provider = dataProvider and st = omit_prefs
        and resource = "''posts''" and e = sample_env and apiUrl = "''http://api''"
        and s = sample_settings and p = sample_params and h = sample_heap,
        OF disjI1 [OF refl] refl refl refl]
    by (simp add: prefs_defs)
qed

text \<open>
  Where the claim as stated fails: an empty column list with the available columns
  null dereferences nothing; the call completes, and its request carries
  \<open>fields[posts]\<close> with an empty value.
\<close>

theorem empty_column_list_completes:
  "getColumns empty_columns_prefs ''RaStore.preferences.posts.datagrid.columns'' = Some [] \<and>
   getAvailable empty_columns_prefs ''RaStore.preferences.posts.datagrid.availableColumns'' = None \<and>
   fst (dataProvider sample_env empty_columns_prefs ''http://api'' sample_settings GET_LIST
          ''posts'' sample_params sample_heap) =
     Resolved (Obj [(''data'', Arr []), (''total'', Num 0)]) \<and>
   fst (snd (dataProvider sample_env empty_columns_prefs ''http://api'' sample_settings GET_LIST
          ''posts'' sample_params sample_heap)) =
     sample_params\<lparr>fields_p := Some [(''posts'', Str [])]\<rparr>"
  by (simp add: dataProvider_def buildRequest_def handleResponse_def resolve_total_def
      meta_total_def map_records_def query_defs prefs_defs sample_defs actions_defs)

end
